theory Spec2Isabelle
  imports Main "HOL-Library.Sublist"
begin

section \<open>The federation relay of bgs/bgs.go\<close>

text \<open>
  A shallow embedding of \<^verbatim>\<open>bgs.go\<close>: the two request handlers
  (\<^verbatim>\<open>handleAddTarget\<close>, \<^verbatim>\<open>EventsHandler\<close>), the ingestion router
  (\<^verbatim>\<open>handleFedEvent\<close>, \<^verbatim>\<open>lookupUserByDid\<close>) and identity resolution
  (\<^verbatim>\<open>createExternalUser\<close>).

  The packages the file calls (the directory resolver, the XRPC client, the merge
  engine, the indexer with its catch-up queue, the subscription manager, the event
  manager, the websocket connection) are not part of the file. Each of them is a field
  of the record \<open>env\<close>: a function that gives the outcome of the call. Every call that
  matters to a property is also recorded in the state, so that "was called once",
  "was not called" and "was called with these arguments" can be stated.
\<close>

subsection \<open>Errors\<close>

text \<open>
  Go's \<^verbatim>\<open>error\<close> values. \<open>ErrWrap\<close> is \<^verbatim>\<open>fmt.Errorf("...: %w", err)\<close>, which
  \<^verbatim>\<open>errors.Is\<close> looks through; \<open>ErrFormat\<close> is \<^verbatim>\<open>fmt.Errorf("...: %s", err)\<close>,
  which keeps the text only. \<open>ErrExternal\<close> is any error of a collaborator.
\<close>

datatype error =
    ErrRecordNotFound
  | ErrRepoBaseMismatch
  | ErrUniqueConstraint
  | ErrNumSyntax
  | ErrNumRange
  | ErrNoHost
  | ErrInvalidFedEvent
  | ErrNoServices string
  | ErrHandleMismatch string string
  | ErrExternal string
  | ErrFormat string error
  | ErrWrap string error

fun errors_Is :: "error \<Rightarrow> error \<Rightarrow> bool" where
  "errors_Is (ErrWrap msg inner) target =
     (ErrWrap msg inner = target \<or> errors_Is inner target)"
| "errors_Is err target = (err = target)"

text \<open>
  The outcome of a function that can also panic: \<^verbatim>\<open>createExternalUser\<close> dereferences
  pointers of the profile, and a nil pointer there is a runtime panic, not an error value:
  no caller's \<^verbatim>\<open>if err != nil\<close> sees it.
\<close>

datatype 'a result = Ok 'a | Err error | Panic

subsection \<open>Data\<close>

text \<open>
  The rows of the store. \<^verbatim>\<open>gorm.Model\<close> gives each row a numeric \<^verbatim>\<open>ID\<close>
  (and three timestamps, which no code of the file reads and which are left out). The
  fields of two records cannot share a name, so each carries a prefix: \<open>u_\<close> for
  \<^verbatim>\<open>User\<close>, \<open>p_\<close> for \<^verbatim>\<open>models.PDS\<close>, \<open>a_\<close> for \<^verbatim>\<open>models.ActorInfo\<close>.
  Of the last two, declared in another package, the fields are those the file uses.
\<close>

record User =
  u_ID :: nat
  u_Handle :: string
  u_Did :: string
  u_PDS :: nat

record PDS =
  p_ID :: nat
  p_Host :: string
  p_Did :: string

record ActorInfo =
  a_Uid :: nat
  a_Handle :: string
  a_DisplayName :: string
  a_Did :: string
  a_DeclRefCid :: string
  a_Type :: string
  a_PDS :: nat

text \<open>The DID document: its service endpoints and its aliases.\<close>

record Service =
  ServiceEndpoint :: string

record Document =
  d_Service :: "Service list"
  d_AlsoKnownAs :: "string list"

text \<open>What \<^verbatim>\<open>url.Parse\<close> returns, as far as the file reads or writes it.\<close>

record URL =
  Scheme :: string
  Host :: string
  Rest :: string

text \<open>
  The peer's profile. \<^verbatim>\<open>DisplayName\<close> is a pointer in the source (it is
  dereferenced with \<^verbatim>\<open>*\<close>), so it is an option. \<^verbatim>\<open>Declaration\<close> is reached
  through \<^verbatim>\<open>profile.Declaration.Cid\<close>; its type is declared in another package, and
  the option covers both readings (a struct value is always \<open>Some\<close>).
\<close>

record DeclRef =
  Cid :: string

record Profile =
  pr_Handle :: string
  pr_DisplayName :: "string option"
  pr_Declaration :: "DeclRef option"

record RepoAppend =
  Prev :: "string option"
  Ops :: "string list"
  Car :: string

record RepoEvent =
  Seq :: int
  Repo :: string
  ev_RepoAppend :: "RepoAppend option"

subsection \<open>State\<close>

text \<open>
  The three tables of the store, in insertion order, and the calls made to the
  collaborators: \<open>probes\<close> holds the client host of each \<^verbatim>\<open>atproto.HandleResolve\<close>,
  \<open>merges\<close> the arguments of each \<^verbatim>\<open>HandleExternalUserEvent\<close>, \<open>catchup\<close> those of each
  \<^verbatim>\<open>AddToCatchupQueue\<close>, \<open>slurped\<close> the host of each \<^verbatim>\<open>SubscribeToPds\<close>, \<open>subs\<close>
  the filter and cursor of each \<^verbatim>\<open>Subscribe\<close>, and \<open>cancels\<close> counts the calls of a
  subscription's \<^verbatim>\<open>cancel\<close>.
\<close>

record bgs_state =
  users :: "User list"
  pds :: "PDS list"
  actors :: "ActorInfo list"
  probes :: "string list"
  merges :: "(nat \<times> nat \<times> RepoAppend) list"
  catchup :: "(PDS \<times> ActorInfo \<times> RepoEvent) list"
  slurped :: "string list"
  subs :: "((RepoEvent \<Rightarrow> bool) \<times> int option) list"
  cancels :: nat

datatype db_op =
    FindUser string
  | FindPDS string
  | CreatePDS PDS
  | CreateUser User
  | CreateActor ActorInfo

text \<open>The operations on the websocket connection of \<^verbatim>\<open>EventsHandler\<close>.\<close>

datatype ws_op =
    NextWriter_Binary
  | Marshal_Header string
  | Marshal_Event RepoEvent
  | Close_Writer

subsection \<open>The collaborators\<close>

text \<open>
  \<open>db_fault\<close> lets any statement of the store fail (a lost connection, a constraint
  of a table declared elsewhere); the constraints the file itself declares, the two
  \<^verbatim>\<open>uniqueIndex\<close> tags of \<^verbatim>\<open>User\<close>, are part of \<open>db_Create_User\<close> below.
  The results of the merge engine, of the indexer's lookup, of the catch-up queue, of the
  subscription manager and of the event manager may depend on the state.
  \<open>events_Subscribe\<close> gives the events that come out of the subscription's channel
  until it is closed. \<open>ws_fault\<close> decides, from the operations already done on the
  connection, whether the next one fails.
\<close>

record env =
  db_fault :: "db_op \<Rightarrow> bgs_state \<Rightarrow> error option"
  getDocument :: "string \<Rightarrow> error + Document"
  url_Parse :: "string \<Rightarrow> error + URL"
  url_String :: "URL \<Rightarrow> string"
  handleResolve :: "string \<Rightarrow> string \<Rightarrow> error + string"
  actorGetProfile :: "string \<Rightarrow> string \<Rightarrow> error + Profile"
  handleExternalUserEvent :: "bgs_state \<Rightarrow> nat \<Rightarrow> nat \<Rightarrow> RepoAppend \<Rightarrow> error option"
  lookupUser :: "bgs_state \<Rightarrow> nat \<Rightarrow> error + ActorInfo"
  addToCatchupQueue :: "bgs_state \<Rightarrow> PDS \<Rightarrow> ActorInfo \<Rightarrow> RepoEvent \<Rightarrow> error option"
  subscribeToPds :: "bgs_state \<Rightarrow> string \<Rightarrow> error option"
  websocket_Upgrade :: "error option"
  events_Subscribe :: "bgs_state \<Rightarrow> (RepoEvent \<Rightarrow> bool) \<Rightarrow> int option \<Rightarrow> error + RepoEvent list"
  ws_fault :: "ws_op list \<Rightarrow> ws_op \<Rightarrow> error option"

subsection \<open>The store\<close>

text \<open>
  \<^verbatim>\<open>db.Find(&row, cond)\<close> into a zero-valued struct: the first row that meets the
  condition, or the struct unchanged (so with \<^verbatim>\<open>ID\<close> 0) when there is none;
  no row is not an error. \<^verbatim>\<open>db.Create\<close> of a row whose \<^verbatim>\<open>ID\<close> is 0 gives it the
  next identifier, which is never 0.
\<close>

definition zero_User :: User where
  "zero_User = \<lparr>u_ID = 0, u_Handle = [], u_Did = [], u_PDS = 0\<rparr>"

definition zero_PDS :: PDS where
  "zero_PDS = \<lparr>p_ID = 0, p_Host = [], p_Did = []\<rparr>"

definition next_id :: "nat list \<Rightarrow> nat" where
  "next_id ids = Suc (fold max ids 0)"

definition db_Find_User :: "env \<Rightarrow> bgs_state \<Rightarrow> string \<Rightarrow> error + User" where
  "db_Find_User e s did =
     (case db_fault e (FindUser did) s of
        Some err \<Rightarrow> Inl err
      | None \<Rightarrow>
          (case find (\<lambda>u. u_Did u = did) (users s) of
             None \<Rightarrow> Inr zero_User
           | Some u \<Rightarrow> Inr u))"

definition db_Find_PDS :: "env \<Rightarrow> bgs_state \<Rightarrow> string \<Rightarrow> error + PDS" where
  "db_Find_PDS e s host =
     (case db_fault e (FindPDS host) s of
        Some err \<Rightarrow> Inl err
      | None \<Rightarrow>
          (case find (\<lambda>p. p_Host p = host) (pds s) of
             None \<Rightarrow> Inr zero_PDS
           | Some p \<Rightarrow> Inr p))"

definition db_Create_PDS :: "env \<Rightarrow> bgs_state \<Rightarrow> PDS \<Rightarrow> error + (bgs_state \<times> PDS)" where
  "db_Create_PDS e s p =
     (case db_fault e (CreatePDS p) s of
        Some err \<Rightarrow> Inl err
      | None \<Rightarrow>
          (let p' = p\<lparr>p_ID := next_id (map p_ID (pds s))\<rparr>
           in Inr (s\<lparr>pds := pds s @ [p']\<rparr>, p')))"

definition db_Create_User :: "env \<Rightarrow> bgs_state \<Rightarrow> User \<Rightarrow> error + (bgs_state \<times> User)" where
  "db_Create_User e s u =
     (case db_fault e (CreateUser u) s of
        Some err \<Rightarrow> Inl err
      | None \<Rightarrow>
          (if list_ex (\<lambda>v. u_Handle v = u_Handle u \<or> u_Did v = u_Did u) (users s)
           then Inl ErrUniqueConstraint
           else (let u' = u\<lparr>u_ID := next_id (map u_ID (users s))\<rparr>
                 in Inr (s\<lparr>users := users s @ [u']\<rparr>, u'))))"

definition db_Create_Actor :: "env \<Rightarrow> bgs_state \<Rightarrow> ActorInfo \<Rightarrow> error + bgs_state" where
  "db_Create_Actor e s a =
     (case db_fault e (CreateActor a) s of
        Some err \<Rightarrow> Inl err
      | None \<Rightarrow> Inr (s\<lparr>actors := actors s @ [a]\<rparr>))"

subsection \<open>Identity resolution: createExternalUser\<close>

text \<open>
  Lines 231 to 245: when the lookup found no row (\<^verbatim>\<open>peering.ID == 0\<close>), probe the host
  through the client \<open>c\<close> and create the row. The row's host is the service endpoint as
  the document gives it (\<^verbatim>\<open>peering.Host = svc.ServiceEndpoint\<close>).
\<close>

definition ensure_peering ::
  "env \<Rightarrow> bgs_state \<Rightarrow> Service \<Rightarrow> string \<Rightarrow> PDS \<Rightarrow> bgs_state \<times> (error + PDS)" where
  "ensure_peering e s svc c peering =
     (if p_ID peering = 0 then
        (let s1 = s\<lparr>probes := probes s @ [c]\<rparr> in
         case handleResolve e c [] of
           Inl err \<Rightarrow>
             (s1, Inl (ErrWrap ''failed to get accounts config for unrecognized pds'' err))
         | Inr pdsdid \<Rightarrow>
             (case db_Create_PDS e s1 (peering\<lparr>p_Host := ServiceEndpoint svc, p_Did := pdsdid\<rparr>) of
                Inl err \<Rightarrow> (s1, Inl err)
              | Inr (s2, peering') \<Rightarrow> (s2, Inr peering')))
      else (s, Inr peering))"

text \<open>Lines 247 to 255: the handle is the host of the first alias, or empty.\<close>

definition derive_handle :: "env \<Rightarrow> Document \<Rightarrow> error + string" where
  "derive_handle e doc =
     (case d_AlsoKnownAs doc of
        [] \<Rightarrow> Inr []
      | aka # _ \<Rightarrow>
          (case url_Parse e aka of
             Inl err \<Rightarrow> Inl err
           | Inr hurl \<Rightarrow> Inr (Host hurl)))"

text \<open>
  Lines 262 to 292: the cross-check of the two handles, the \<^verbatim>\<open>User\<close> row, then the
  \<^verbatim>\<open>ActorInfo\<close>. The fields of the literal are evaluated in order once the user row
  exists, so a nil \<^verbatim>\<open>DisplayName\<close> (or declaration) panics there.
\<close>

definition persist_user ::
  "env \<Rightarrow> bgs_state \<Rightarrow> string \<Rightarrow> string \<Rightarrow> PDS \<Rightarrow> Profile \<Rightarrow> bgs_state \<times> ActorInfo result" where
  "persist_user e s did handle peering profile =
     (if handle \<noteq> pr_Handle profile then
        (s, Err (ErrHandleMismatch handle (pr_Handle profile)))
      else
        (case db_Create_User e s \<lparr>u_ID = 0, u_Handle = handle, u_Did = did, u_PDS = p_ID peering\<rparr> of
           Inl err \<Rightarrow> (s, Err (ErrWrap ''failed to create other pds user'' err))
         | Inr (s1, u) \<Rightarrow>
             (case pr_DisplayName profile of
                None \<Rightarrow> (s1, Panic)
              | Some dn \<Rightarrow>
                  (case pr_Declaration profile of
                     None \<Rightarrow> (s1, Panic)
                   | Some decl \<Rightarrow>
                       (let subj = \<lparr>a_Uid = u_ID u, a_Handle = handle, a_DisplayName = dn,
                                    a_Did = did, a_DeclRefCid = Cid decl, a_Type = [],
                                    a_PDS = p_ID peering\<rparr>
                        in case db_Create_Actor e s1 subj of
                             Inl err \<Rightarrow> (s1, Err err)
                           | Inr s2 \<Rightarrow> (s2, Ok subj))))))"

text \<open>
  Lines 203 to 260: everything up to the profile. The result is the handle derived from
  the document, the peering row and the profile.
\<close>

definition fetch_identity ::
  "env \<Rightarrow> bgs_state \<Rightarrow> string \<Rightarrow> bgs_state \<times> (error + (string \<times> PDS \<times> Profile))" where
  "fetch_identity e s did =
     (case getDocument e did of
        Inl err \<Rightarrow> (s, Inl (ErrFormat ''could not locate DID document for followed user'' err))
      | Inr doc \<Rightarrow>
          (case d_Service doc of
             [] \<Rightarrow> (s, Inl (ErrNoServices did))
           | svc # _ \<Rightarrow>
               (case url_Parse e (ServiceEndpoint svc) of
                  Inl err \<Rightarrow> (s, Inl err)
                | Inr parsed \<Rightarrow>
                    (let durl = (if prefix ''localhost:'' (Host parsed)
                                 then parsed\<lparr>Scheme := ''http''\<rparr> else parsed)
                     in case db_Find_PDS e s (Host durl) of
                          Inl err \<Rightarrow> (s, Inl err)
                        | Inr found \<Rightarrow>
                            (let c = url_String e durl
                             in case ensure_peering e s svc c found of
                                  (s1, Inl err) \<Rightarrow> (s1, Inl err)
                                | (s1, Inr peering) \<Rightarrow>
                                    (case derive_handle e doc of
                                       Inl err \<Rightarrow> (s1, Inl err)
                                     | Inr handle \<Rightarrow>
                                         (case actorGetProfile e c did of
                                            Inl err \<Rightarrow> (s1, Inl err)
                                          | Inr profile \<Rightarrow>
                                              (s1, Inr (handle, peering, profile)))))))))"

definition createExternalUser :: "env \<Rightarrow> bgs_state \<Rightarrow> string \<Rightarrow> bgs_state \<times> ActorInfo result" where
  "createExternalUser e s did =
     (case fetch_identity e s did of
        (s1, Inl err) \<Rightarrow> (s1, Err err)
      | (s1, Inr (handle, peering, profile)) \<Rightarrow> persist_user e s1 did handle peering profile)"

subsection \<open>The ingestion router: lookupUserByDid and handleFedEvent\<close>

definition lookupUserByDid :: "env \<Rightarrow> bgs_state \<Rightarrow> string \<Rightarrow> error + User" where
  "lookupUserByDid e s did =
     (case db_Find_User e s did of
        Inl err \<Rightarrow> Inl err
      | Inr u \<Rightarrow> (if u_ID u = 0 then Inl ErrRecordNotFound else Inr u))"

text \<open>
  Lines 182 to 195, which both branches of the user lookup reach with the user's numeric
  id: the merge, and on a base mismatch the lookup of the directory record and the
  catch-up queue. The handler returns what \<^verbatim>\<open>AddToCatchupQueue\<close> returns.
\<close>

definition merge_event ::
  "env \<Rightarrow> bgs_state \<Rightarrow> PDS \<Rightarrow> nat \<Rightarrow> RepoEvent \<Rightarrow> RepoAppend \<Rightarrow> bgs_state \<times> unit result" where
  "merge_event e s host uid evt ra =
     (let s1 = s\<lparr>merges := merges s @ [(p_ID host, uid, ra)]\<rparr> in
      case handleExternalUserEvent e s (p_ID host) uid ra of
        None \<Rightarrow> (s1, Ok ())
      | Some err \<Rightarrow>
          (if \<not> errors_Is err ErrRepoBaseMismatch then (s1, Err err)
           else
             (case lookupUser e s1 uid of
                Inl err' \<Rightarrow> (s1, Err err')
              | Inr ai \<Rightarrow>
                  (let s2 = s1\<lparr>catchup := catchup s1 @ [(host, ai, evt)]\<rparr> in
                   case addToCatchupQueue e s1 host ai evt of
                     None \<Rightarrow> (s2, Ok ())
                   | Some err' \<Rightarrow> (s2, Err err')))))"

definition handleFedEvent :: "env \<Rightarrow> bgs_state \<Rightarrow> PDS \<Rightarrow> RepoEvent \<Rightarrow> bgs_state \<times> unit result" where
  "handleFedEvent e s host evt =
     (case ev_RepoAppend evt of
        None \<Rightarrow> (s, Err ErrInvalidFedEvent)
      | Some ra \<Rightarrow>
          (case lookupUserByDid e s (Repo evt) of
             Inr u \<Rightarrow> merge_event e s host (u_ID u) evt ra
           | Inl err \<Rightarrow>
               (if \<not> errors_Is err ErrRecordNotFound then
                  (s, Err (ErrWrap ''looking up event user'' err))
                else
                  (case createExternalUser e s (Repo evt) of
                     (s1, Err err') \<Rightarrow> (s1, Err (ErrWrap ''fed event create external user'' err'))
                   | (s1, Panic) \<Rightarrow> (s1, Panic)
                   | (s1, Ok subj) \<Rightarrow> merge_event e s1 host (a_Uid subj) evt ra))))"

subsection \<open>The HTTP surface\<close>

text \<open>
  A handler returns Go's \<^verbatim>\<open>error\<close>: \<open>None\<close> is \<^verbatim>\<open>nil\<close>. The framework gives every
  error a handler returns to the \<^verbatim>\<open>HTTPErrorHandler\<close> that \<^verbatim>\<open>Start\<close> installs, which
  calls \<^verbatim>\<open>WriteHeader(500)\<close> whatever the error is. \<open>serve\<close> is the status this writes on
  a response that the handler has left untouched, as \<^verbatim>\<open>handleAddTarget\<close> does. It says
  nothing of \<^verbatim>\<open>EventsHandler\<close>: there the connection has been taken over by the
  websocket upgrade before any error can be returned, and no status is written.
\<close>

definition HTTPErrorHandler :: "error \<Rightarrow> nat" where
  "HTTPErrorHandler err = 500"

definition serve :: "error option \<Rightarrow> nat option" where
  "serve r = (case r of None \<Rightarrow> None | Some err \<Rightarrow> Some (HTTPErrorHandler err))"

text \<open>The status classes of HTTP: 4xx is a client error, 5xx a server error.\<close>

definition client_error_status :: "nat \<Rightarrow> bool" where
  "client_error_status st = (400 \<le> st \<and> st < 500)"

definition server_error_status :: "nat \<Rightarrow> bool" where
  "server_error_status st = (500 \<le> st \<and> st < 600)"

record addTargetBody =
  body_Host :: string

text \<open>
  \<^verbatim>\<open>handleAddTarget\<close>; its argument is the outcome of \<^verbatim>\<open>c.Bind(&body)\<close>, the decoding
  of the request's body.
\<close>

definition handleAddTarget ::
  "env \<Rightarrow> bgs_state \<Rightarrow> error + addTargetBody \<Rightarrow> bgs_state \<times> error option" where
  "handleAddTarget e s bound =
     (case bound of
        Inl err \<Rightarrow> (s, Some err)
      | Inr body \<Rightarrow>
          (if body_Host body = [] then (s, Some ErrNoHost)
           else (s\<lparr>slurped := slurped s @ [body_Host body]\<rparr>,
                 subscribeToPds e s (body_Host body))))"

subsection \<open>strconv.ParseInt(s, 10, 64)\<close>

text \<open>
  An optional sign, then \<^verbatim>\<open>ParseUint\<close>: at least one character, decimal digits only
  (with an explicit base an underscore is a syntax error), a range error as soon as the
  value leaves 64 bits; then the signed range.
\<close>

definition digit_val :: "char \<Rightarrow> int option" where
  "digit_val c =
     (let n = (of_char c :: int) in if 48 \<le> n \<and> n \<le> 57 then Some (n - 48) else None)"

fun ParseUint_loop :: "int \<Rightarrow> string \<Rightarrow> error + int" where
  "ParseUint_loop n [] = Inr n"
| "ParseUint_loop n (c # cs) =
     (case digit_val c of
        None \<Rightarrow> Inl ErrNumSyntax
      | Some d \<Rightarrow>
          (if n \<ge> 1844674407370955162 then Inl ErrNumRange
           else if n * 10 + d > 18446744073709551615 then Inl ErrNumRange
           else ParseUint_loop (n * 10 + d) cs))"

definition ParseInt :: "string \<Rightarrow> error + int" where
  "ParseInt s =
     (case s of
        [] \<Rightarrow> Inl ErrNumSyntax
      | c # cs \<Rightarrow>
          (let neg = (c = CHR ''-'');
               body = (if c = CHR ''+'' \<or> c = CHR ''-'' then cs else s)
           in if body = [] then Inl ErrNumSyntax
              else
                (case ParseUint_loop 0 body of
                   Inl err \<Rightarrow> Inl err
                 | Inr un \<Rightarrow>
                     (if \<not> neg \<and> un \<ge> 9223372036854775808 then Inl ErrNumRange
                      else if neg \<and> un > 9223372036854775808 then Inl ErrNumRange
                      else Inr (if neg then - un else un)))))"

subsection \<open>The event stream: EventsHandler\<close>

text \<open>
  The request's headers: each name with its values. \<^verbatim>\<open>Header.Get\<close> gives the first
  value of the name and the empty string when there is none (names are compared after
  canonicalisation, which the model leaves to the names of the list).
\<close>

record request =
  Header :: "(string \<times> string list) list"

definition Header_Get :: "(string \<times> string list) list \<Rightarrow> string \<Rightarrow> string" where
  "Header_Get h key =
     (case map_of h key of
        None \<Rightarrow> []
      | Some [] \<Rightarrow> []
      | Some (v # _) \<Rightarrow> v)"

text \<open>Lines 110 to 117: the starting cursor.\<close>

definition parse_since :: "request \<Rightarrow> error + int option" where
  "parse_since req =
     (let sinceHeader = Header_Get (Header req) ''since'' in
      if sinceHeader \<noteq> [] then
        (case ParseInt sinceHeader of
           Inl err \<Rightarrow> Inl err
         | Inr sval \<Rightarrow> Inr (Some sval))
      else Inr None)"

text \<open>The filter that \<^verbatim>\<open>EventsHandler\<close> gives to \<^verbatim>\<open>Subscribe\<close>.\<close>

definition events_filter :: "RepoEvent \<Rightarrow> bool" where
  "events_filter evt = True"

text \<open>
  Lines 125 to 143, the loop over the channel; \<open>tr\<close> is the list of the operations that
  the connection has completed. The loop ends when the channel is closed: the argument is
  the list of the events it delivers until then.
\<close>

fun write_events :: "env \<Rightarrow> ws_op list \<Rightarrow> RepoEvent list \<Rightarrow> ws_op list \<times> error option" where
  "write_events e tr [] = (tr, None)"
| "write_events e tr (evt # evts) =
     (case ws_fault e tr NextWriter_Binary of
        Some err \<Rightarrow> (tr, Some err)
      | None \<Rightarrow>
          (let tr1 = tr @ [NextWriter_Binary] in
           case ws_fault e tr1 (Marshal_Header ''data'') of
             Some err \<Rightarrow> (tr1, Some (ErrWrap ''failed to write header'' err))
           | None \<Rightarrow>
               (let tr2 = tr1 @ [Marshal_Header ''data''] in
                case ws_fault e tr2 (Marshal_Event evt) of
                  Some err \<Rightarrow> (tr2, Some (ErrWrap ''failed to write event'' err))
                | None \<Rightarrow>
                    (let tr3 = tr2 @ [Marshal_Event evt] in
                     case ws_fault e tr3 Close_Writer of
                       Some err \<Rightarrow>
                         (tr3, Some (ErrWrap ''failed to flush-close our event write'' err))
                     | None \<Rightarrow> write_events e (tr3 @ [Close_Writer]) evts))))"

text \<open>
  \<^verbatim>\<open>EventsHandler\<close>: the new state, the operations done on the connection, and the
  error returned. \<^verbatim>\<open>defer cancel()\<close> runs on every return after a successful
  \<^verbatim>\<open>Subscribe\<close>.
\<close>

definition EventsHandler ::
  "env \<Rightarrow> bgs_state \<Rightarrow> request \<Rightarrow> bgs_state \<times> ws_op list \<times> error option" where
  "EventsHandler e s req =
     (case websocket_Upgrade e of
        Some err \<Rightarrow> (s, [], Some err)
      | None \<Rightarrow>
          (case parse_since req of
             Inl err \<Rightarrow> (s, [], Some err)
           | Inr since \<Rightarrow>
               (let s1 = s\<lparr>subs := subs s @ [(events_filter, since)]\<rparr> in
                case events_Subscribe e s events_filter since of
                  Inl err \<Rightarrow> (s1, [], Some err)
                | Inr evts \<Rightarrow>
                    (case write_events e [] evts of
                       (tr, r) \<Rightarrow> (s1\<lparr>cancels := Suc (cancels s1)\<rparr>, tr, r)))))"

text \<open>The operations that write one event: one binary frame, the header, the body, the close.\<close>

definition frame_ops :: "RepoEvent \<Rightarrow> ws_op list" where
  "frame_ops evt = [NextWriter_Binary, Marshal_Header ''data'', Marshal_Event evt, Close_Writer]"

text \<open>
  The error that the loop returns when an operation of the connection fails with \<open>err\<close>
  (lines 128 to 141): that of \<^verbatim>\<open>NextWriter\<close> as it is, the others wrapped.
\<close>

definition op_error :: "ws_op \<Rightarrow> error \<Rightarrow> error" where
  "op_error op err =
     (case op of
        NextWriter_Binary \<Rightarrow> err
      | Marshal_Header h \<Rightarrow> ErrWrap ''failed to write header'' err
      | Marshal_Event evt \<Rightarrow> ErrWrap ''failed to write event'' err
      | Close_Writer \<Rightarrow> ErrWrap ''failed to flush-close our event write'' err)"

text \<open>
  \<open>all_ok e tr ops\<close>: on a connection that has completed \<open>tr\<close>, each operation of \<open>ops\<close>,
  done in order, succeeds.
\<close>

fun all_ok :: "env \<Rightarrow> ws_op list \<Rightarrow> ws_op list \<Rightarrow> bool" where
  "all_ok e tr [] = True"
| "all_ok e tr (op # ops) = (ws_fault e tr op = None \<and> all_ok e (tr @ [op]) ops)"

text \<open>
  Modelled from the spec: \<^verbatim>\<open>subscribe(filter, optionalSinceSeq)\<close> of the event manager
  (package \<^verbatim>\<open>events\<close> is not among the sources). \<open>retained\<close> is the log at the time of
  the registration, \<open>live\<close> the events published from then until the subscription ends.
  With a cursor, delivery replays the retained events whose sequence number is greater
  than it and goes on with the live events; without one it starts from now, with the live
  events only. Of these the subscription receives those for which its predicate returns
  true, each once and in order.
\<close>

definition subscription_window :: "RepoEvent list \<Rightarrow> RepoEvent list \<Rightarrow> int option \<Rightarrow> RepoEvent list" where
  "subscription_window retained live since =
     (case since of
        None \<Rightarrow> live
      | Some cursor \<Rightarrow> filter (\<lambda>evt. cursor < Seq evt) retained @ live)"

definition spec_Subscribe ::
  "RepoEvent list \<Rightarrow> RepoEvent list \<Rightarrow> (RepoEvent \<Rightarrow> bool) \<Rightarrow> int option \<Rightarrow> RepoEvent list" where
  "spec_Subscribe retained live f since = filter f (subscription_window retained live since)"

subsection \<open>A concrete network\<close>

text \<open>
  Two actors, \<open>did:plc:alice\<close> and \<open>did:plc:bob\<close>, on the host \<open>pds.example\<close>, a
  third whose document has no service, and a fourth whose profile has no display name.
  \<open>sample_Parse\<close> agrees with \<^verbatim>\<open>url.Parse\<close> on the four strings it knows.
\<close>

definition sample_Document :: "string \<Rightarrow> error + Document" where
  "sample_Document did =
     (if did = ''did:plc:alice'' then
        Inr \<lparr>d_Service = [\<lparr>ServiceEndpoint = ''https://pds.example''\<rparr>],
             d_AlsoKnownAs = [''at://alice.example'']\<rparr>
      else if did = ''did:plc:bob'' then
        Inr \<lparr>d_Service = [\<lparr>ServiceEndpoint = ''https://pds.example''\<rparr>],
             d_AlsoKnownAs = [''at://bob.example'']\<rparr>
      else if did = ''did:plc:carol'' then
        Inr \<lparr>d_Service = [\<lparr>ServiceEndpoint = ''https://pds.example''\<rparr>],
             d_AlsoKnownAs = [''at://carol.example'']\<rparr>
      else if did = ''did:plc:nobody'' then
        Inr \<lparr>d_Service = [], d_AlsoKnownAs = []\<rparr>
      else Inl (ErrExternal ''no such identifier''))"

definition sample_Parse :: "string \<Rightarrow> error + URL" where
  "sample_Parse raw =
     (if raw = ''https://pds.example'' then
        Inr \<lparr>Scheme = ''https'', Host = ''pds.example'', Rest = []\<rparr>
      else if raw = ''at://alice.example'' then
        Inr \<lparr>Scheme = ''at'', Host = ''alice.example'', Rest = []\<rparr>
      else if raw = ''at://bob.example'' then
        Inr \<lparr>Scheme = ''at'', Host = ''bob.example'', Rest = []\<rparr>
      else if raw = ''at://carol.example'' then
        Inr \<lparr>Scheme = ''at'', Host = ''carol.example'', Rest = []\<rparr>
      else Inl (ErrExternal ''unparseable''))"

definition sample_Profile :: "string \<Rightarrow> string \<Rightarrow> error + Profile" where
  "sample_Profile c did =
     (if did = ''did:plc:alice'' then
        Inr \<lparr>pr_Handle = ''alice.example'', pr_DisplayName = Some ''Alice'',
             pr_Declaration = Some \<lparr>Cid = ''cid-a''\<rparr>\<rparr>
      else if did = ''did:plc:bob'' then
        Inr \<lparr>pr_Handle = ''bob.example'', pr_DisplayName = Some ''Bob'',
             pr_Declaration = Some \<lparr>Cid = ''cid-b''\<rparr>\<rparr>
      else if did = ''did:plc:carol'' then
        Inr \<lparr>pr_Handle = ''carol.example'', pr_DisplayName = None,
             pr_Declaration = Some \<lparr>Cid = ''cid-c''\<rparr>\<rparr>
      else Inl (ErrExternal ''no profile''))"

definition sample_LookupUser :: "bgs_state \<Rightarrow> nat \<Rightarrow> error + ActorInfo" where
  "sample_LookupUser s uid =
     (case find (\<lambda>a. a_Uid a = uid) (actors s) of
        None \<Rightarrow> Inl ErrRecordNotFound
      | Some a \<Rightarrow> Inr a)"

definition sample_env :: env where
  "sample_env =
     \<lparr>db_fault = (\<lambda>op s. None),
      getDocument = sample_Document,
      url_Parse = sample_Parse,
      url_String = (\<lambda>u. Scheme u @ ''://'' @ Host u @ Rest u),
      handleResolve = (\<lambda>c h. Inr ''did:web:pds.example''),
      actorGetProfile = sample_Profile,
      handleExternalUserEvent = (\<lambda>s hid uid ra. None),
      lookupUser = sample_LookupUser,
      addToCatchupQueue = (\<lambda>s host ai evt. None),
      subscribeToPds = (\<lambda>s host. None),
      websocket_Upgrade = None,
      events_Subscribe = (\<lambda>s f since. Inr []),
      ws_fault = (\<lambda>tr op. None)\<rparr>"

text \<open>The same network with a merge engine that reports a base mismatch.\<close>

definition mismatch_env :: env where
  "mismatch_env = sample_env\<lparr>handleExternalUserEvent := (\<lambda>s hid uid ra. Some ErrRepoBaseMismatch)\<rparr>"

text \<open>The same network, where the peer reports another handle for \<open>did:plc:alice\<close>.\<close>

definition spoof_env :: env where
  "spoof_env = sample_env\<lparr>actorGetProfile := (\<lambda>c did. sample_Profile c ''did:plc:bob'')\<rparr>"

definition empty_state :: bgs_state where
  "empty_state =
     \<lparr>users = [], pds = [], actors = [], probes = [], merges = [], catchup = [],
      slurped = [], subs = [], cancels = 0\<rparr>"

definition sample_host :: PDS where
  "sample_host = \<lparr>p_ID = 1, p_Host = ''pds.example'', p_Did = ''did:web:pds.example''\<rparr>"

definition sample_append :: RepoAppend where
  "sample_append = \<lparr>Prev = None, Ops = [''create''], Car = ''blob''\<rparr>"

definition sample_event :: "string \<Rightarrow> RepoEvent" where
  "sample_event did = \<lparr>Seq = 1, Repo = did, ev_RepoAppend = Some sample_append\<rparr>"

text \<open>
  The store after the resolution of \<open>did:plc:carol\<close>, whose profile has no display name:
  her user row and the peering row are written, no directory record is.
\<close>

definition carol_row_only :: bgs_state where
  "carol_row_only =
     empty_state
       \<lparr>users := [\<lparr>u_ID = 1, u_Handle = ''carol.example'', u_Did = ''did:plc:carol'', u_PDS = 1\<rparr>],
        pds := [\<lparr>p_ID = 1, p_Host = ''https://pds.example'', p_Did = ''did:web:pds.example''\<rparr>],
        probes := [''https://pds.example'']\<rparr>"

text \<open>The store once \<open>did:plc:alice\<close> has been resolved, and her directory record.\<close>

definition alice_info :: ActorInfo where
  "alice_info = \<lparr>a_Uid = 1, a_Handle = ''alice.example'', a_DisplayName = ''Alice'',
                    a_Did = ''did:plc:alice'', a_DeclRefCid = ''cid-a'', a_Type = [], a_PDS = 1\<rparr>"

definition alice_resolved :: bgs_state where
  "alice_resolved =
     empty_state
       \<lparr>users := [\<lparr>u_ID = 1, u_Handle = ''alice.example'', u_Did = ''did:plc:alice'', u_PDS = 1\<rparr>],
        pds := [\<lparr>p_ID = 1, p_Host = ''https://pds.example'', p_Did = ''did:web:pds.example''\<rparr>],
        actors := [alice_info],
        probes := [''https://pds.example'']\<rparr>"

text \<open>
  An event manager whose log holds two events, and the same with a connection that
  fails at the seventh operation (the body of the second event).
\<close>

definition two_events :: "RepoEvent list" where
  "two_events = [sample_event ''did:plc:alice'', sample_event ''did:plc:bob'']"

definition streaming_env :: env where
  "streaming_env = sample_env\<lparr>events_Subscribe := (\<lambda>s f since. Inr (filter f two_events))\<rparr>"

definition broken_pipe_env :: env where
  "broken_pipe_env =
     streaming_env\<lparr>ws_fault := (\<lambda>tr op. if length tr = 6 then Some (ErrExternal ''broken pipe'') else None)\<rparr>"

text \<open>
  An event manager as the spec describes it, whose log holds the events 1 and 2 when the
  subscriber registers, and which publishes the event 3 afterwards.
\<close>

definition numbered_event :: "int \<Rightarrow> RepoEvent" where
  "numbered_event n = \<lparr>Seq = n, Repo = ''did:plc:alice'', ev_RepoAppend = Some sample_append\<rparr>"

definition replay_env :: env where
  "replay_env =
     sample_env\<lparr>events_Subscribe :=
       (\<lambda>s f since. Inr (spec_Subscribe [numbered_event 1, numbered_event 2] [numbered_event 3] f since))\<rparr>"

section \<open>Properties\<close>

subsection \<open>What identity resolution leaves alone\<close>

lemma fetch_identity_tables:
  "fetch_identity e s did = (s', r) \<Longrightarrow>
     users s' = users s \<and> actors s' = actors s \<and> merges s' = merges s \<and> catchup s' = catchup s"
  by (auto simp: fetch_identity_def ensure_peering_def db_Create_PDS_def Let_def
           split: sum.splits list.splits if_splits option.splits prod.splits)

lemma sample_fetch_alice_spoof:
  "fetch_identity spoof_env empty_state ''did:plc:alice'' =
     (empty_state\<lparr>pds := [\<lparr>p_ID = 1, p_Host = ''https://pds.example'', p_Did = ''did:web:pds.example''\<rparr>],
                  probes := [''https://pds.example'']\<rparr>,
      Inr (''alice.example'',
           \<lparr>p_ID = 1, p_Host = ''https://pds.example'', p_Did = ''did:web:pds.example''\<rparr>,
           \<lparr>pr_Handle = ''bob.example'', pr_DisplayName = Some ''Bob'',
             pr_Declaration = Some \<lparr>Cid = ''cid-b''\<rparr>\<rparr>))"
  by (simp add: fetch_identity_def spoof_env_def sample_env_def sample_Document_def sample_Parse_def
        db_Find_PDS_def ensure_peering_def db_Create_PDS_def derive_handle_def sample_Profile_def
        empty_state_def zero_PDS_def next_id_def Let_def)

subsection \<open>The trust gate\<close>

text \<open>
  Claim C2. When the directory document of an identifier declares no service endpoint,
  \<^verbatim>\<open>createExternalUser\<close> fails with the no-service error and leaves the state as it
  was. When resolution reaches the cross-check with a handle derived from the document
  that differs from the handle of the peer's profile, it fails with the handle-mismatch
  error, and neither a user row nor a directory record has been created.
\<close>

theorem createExternalUser_trust_gate:
  "(getDocument e did = Inr doc \<longrightarrow> d_Service doc = [] \<longrightarrow>
      createExternalUser e s did = (s, Err (ErrNoServices did)))
   \<and> (fetch_identity e s did = (s', Inr (handle, peering, profile)) \<longrightarrow>
        handle \<noteq> pr_Handle profile \<longrightarrow>
          createExternalUser e s did = (s', Err (ErrHandleMismatch handle (pr_Handle profile)))
          \<and> users s' = users s \<and> actors s' = actors s)"
proof (intro conjI impI)
  assume "getDocument e did = Inr doc" and "d_Service doc = []"
  then show "createExternalUser e s did = (s, Err (ErrNoServices did))"
    by (simp add: createExternalUser_def fetch_identity_def)
next
  assume f: "fetch_identity e s did = (s', Inr (handle, peering, profile))"
    and h: "handle \<noteq> pr_Handle profile"
  from f h show "createExternalUser e s did = (s', Err (ErrHandleMismatch handle (pr_Handle profile)))"
    by (simp add: createExternalUser_def persist_user_def)
  from fetch_identity_tables [OF f] show "users s' = users s" by simp
  from fetch_identity_tables [OF f] show "actors s' = actors s" by simp
qed

theorem createExternalUser_trust_gate_witness:
  "getDocument sample_env ''did:plc:nobody'' = Inr \<lparr>d_Service = [], d_AlsoKnownAs = []\<rparr>
   \<and> createExternalUser sample_env empty_state ''did:plc:nobody''
     = (empty_state, Err (ErrNoServices ''did:plc:nobody''))
   \<and> snd (createExternalUser spoof_env empty_state ''did:plc:alice'')
     = Err (ErrHandleMismatch ''alice.example'' ''bob.example'')
   \<and> users (fst (createExternalUser spoof_env empty_state ''did:plc:alice'')) = []
   \<and> actors (fst (createExternalUser spoof_env empty_state ''did:plc:alice'')) = []"
  using createExternalUser_trust_gate [where e = sample_env and did = "''did:plc:nobody''"
          and doc = "\<lparr>d_Service = [], d_AlsoKnownAs = []\<rparr>" and s = empty_state]
        createExternalUser_trust_gate [where e = spoof_env and did = "''did:plc:alice''"
          and s = empty_state and handle = "''alice.example''"
          and s' = "empty_state\<lparr>pds := [\<lparr>p_ID = 1, p_Host = ''https://pds.example'',
                                          p_Did = ''did:web:pds.example''\<rparr>],
                                 probes := [''https://pds.example'']\<rparr>"
          and peering = "\<lparr>p_ID = 1, p_Host = ''https://pds.example'', p_Did = ''did:web:pds.example''\<rparr>"
          and profile = "\<lparr>pr_Handle = ''bob.example'', pr_DisplayName = Some ''Bob'',
                           pr_Declaration = Some \<lparr>Cid = ''cid-b''\<rparr>\<rparr>"]
        sample_fetch_alice_spoof
  by (simp add: sample_env_def sample_Document_def empty_state_def)

subsection \<open>Evaluations on the concrete network\<close>

lemma sample_fetch_carol:
  "fetch_identity sample_env empty_state ''did:plc:carol'' =
     (empty_state\<lparr>pds := [\<lparr>p_ID = 1, p_Host = ''https://pds.example'', p_Did = ''did:web:pds.example''\<rparr>],
                  probes := [''https://pds.example'']\<rparr>,
      Inr (''carol.example'',
           \<lparr>p_ID = 1, p_Host = ''https://pds.example'', p_Did = ''did:web:pds.example''\<rparr>,
           \<lparr>pr_Handle = ''carol.example'', pr_DisplayName = None,
             pr_Declaration = Some \<lparr>Cid = ''cid-c''\<rparr>\<rparr>))"
  by (simp add: fetch_identity_def sample_env_def sample_Document_def sample_Parse_def
        db_Find_PDS_def ensure_peering_def db_Create_PDS_def derive_handle_def sample_Profile_def
        empty_state_def zero_PDS_def next_id_def Let_def)

lemma sample_fetch_alice:
  "fetch_identity sample_env empty_state ''did:plc:alice'' =
     (empty_state\<lparr>pds := [\<lparr>p_ID = 1, p_Host = ''https://pds.example'', p_Did = ''did:web:pds.example''\<rparr>],
                  probes := [''https://pds.example'']\<rparr>,
      Inr (''alice.example'',
           \<lparr>p_ID = 1, p_Host = ''https://pds.example'', p_Did = ''did:web:pds.example''\<rparr>,
           \<lparr>pr_Handle = ''alice.example'', pr_DisplayName = Some ''Alice'',
             pr_Declaration = Some \<lparr>Cid = ''cid-a''\<rparr>\<rparr>))"
  by (simp add: fetch_identity_def sample_env_def sample_Document_def sample_Parse_def
        db_Find_PDS_def ensure_peering_def db_Create_PDS_def derive_handle_def sample_Profile_def
        empty_state_def zero_PDS_def next_id_def Let_def)

lemma sample_create_alice:
  "createExternalUser sample_env empty_state ''did:plc:alice'' = (alice_resolved, Ok alice_info)"
  unfolding createExternalUser_def sample_fetch_alice
  by (simp add: persist_user_def db_Create_User_def db_Create_Actor_def sample_env_def
        empty_state_def next_id_def Let_def alice_resolved_def alice_info_def)

lemma sample_create_nobody:
  "createExternalUser sample_env empty_state ''did:plc:nobody''
     = (empty_state, Err (ErrNoServices ''did:plc:nobody''))"
  by (simp add: createExternalUser_def fetch_identity_def sample_env_def sample_Document_def)

subsection \<open>The rows that identity resolution and the merge write\<close>

lemma persist_user_cases:
  "persist_user e s did handle peering profile = (s', r) \<Longrightarrow>
     pds s' = pds s \<and> probes s' = probes s \<and> merges s' = merges s \<and> catchup s' = catchup s \<and>
     ((users s' = users s \<and> (\<forall>subj. r \<noteq> Ok subj)) \<or>
      (\<exists>u. users s' = users s @ [u] \<and> u_Did u = did \<and> u_ID u = next_id (map u_ID (users s))
           \<and> (\<forall>v \<in> set (users s). u_Did v \<noteq> did)
           \<and> (\<forall>subj. r = Ok subj \<longrightarrow> a_Uid subj = u_ID u \<and> a_Did subj = did)))"
  by (auto simp: persist_user_def db_Create_User_def db_Create_Actor_def Let_def list_ex_iff
           split: sum.splits if_splits option.splits prod.splits)

lemma createExternalUser_cases:
  assumes "createExternalUser e s did = (s', r)"
  shows "merges s' = merges s \<and> catchup s' = catchup s \<and>
     ((users s' = users s \<and> (\<forall>subj. r \<noteq> Ok subj)) \<or>
      (\<exists>u. users s' = users s @ [u] \<and> u_Did u = did \<and> u_ID u = next_id (map u_ID (users s))
           \<and> (\<forall>v \<in> set (users s). u_Did v \<noteq> did)
           \<and> (\<forall>subj. r = Ok subj \<longrightarrow> a_Uid subj = u_ID u \<and> a_Did subj = did)))"
proof (cases "fetch_identity e s did")
  case (Pair s1 fr)
  note f = fetch_identity_tables [OF Pair]
  show ?thesis
  proof (cases fr)
    case (Inl err)
    with Pair assms f show ?thesis by (auto simp: createExternalUser_def)
  next
    case (Inr t)
    obtain handle peering profile where t: "t = (handle, peering, profile)" by (cases t) auto
    from Pair Inr t assms have p: "persist_user e s1 did handle peering profile = (s', r)"
      by (simp add: createExternalUser_def)
    from persist_user_cases [OF p] f show ?thesis by simp
  qed
qed

lemma merge_event_tables:
  "merge_event e s host uid evt ra = (s', r) \<Longrightarrow>
     users s' = users s \<and> actors s' = actors s \<and> pds s' = pds s
     \<and> merges s' = merges s @ [(p_ID host, uid, ra)]"
  by (auto simp: merge_event_def Let_def split: option.splits if_splits sum.splits)

lemma lookupUserByDid_absent:
  "db_fault e (FindUser did) s = None \<Longrightarrow> \<forall>u \<in> set (users s). u_Did u \<noteq> did \<Longrightarrow>
     lookupUserByDid e s did = Inl ErrRecordNotFound"
  by (auto simp: lookupUserByDid_def db_Find_User_def zero_User_def find_Some_iff split: option.splits)

subsection \<open>The display name\<close>

text \<open>
  Claim C9. A call of \<^verbatim>\<open>createExternalUser\<close> whose profile carries no display name
  never completes normally. When the two handles agree and the user row has been written,
  the dereference of the nil pointer panics, with the user row already in the store.
\<close>

theorem createExternalUser_needs_display_name:
  assumes "fetch_identity e s did = (s', Inr (handle, peering, profile))"
    and "pr_DisplayName profile = None"
  shows "(\<forall>subj. snd (createExternalUser e s did) \<noteq> Ok subj)
     \<and> (\<forall>s'' u. handle = pr_Handle profile \<longrightarrow>
           db_Create_User e s' \<lparr>u_ID = 0, u_Handle = handle, u_Did = did, u_PDS = p_ID peering\<rparr>
             = Inr (s'', u) \<longrightarrow>
           createExternalUser e s did = (s'', Panic))"
  using assms
  by (auto simp: createExternalUser_def persist_user_def split: sum.splits)

theorem createExternalUser_needs_display_name_witness:
  "pr_DisplayName \<lparr>pr_Handle = ''carol.example'', pr_DisplayName = None,
             pr_Declaration = Some \<lparr>Cid = ''cid-c''\<rparr>\<rparr> = None
   \<and> snd (createExternalUser sample_env empty_state ''did:plc:carol'') = Panic
   \<and> map u_Did (users (fst (createExternalUser sample_env empty_state ''did:plc:carol'')))
       = [''did:plc:carol'']"
proof -
  let ?peering = "\<lparr>p_ID = 1, p_Host = ''https://pds.example'', p_Did = ''did:web:pds.example''\<rparr>"
  let ?s' = "empty_state\<lparr>pds := [?peering], probes := [''https://pds.example'']\<rparr>"
  let ?u = "\<lparr>u_ID = 1, u_Handle = ''carol.example'', u_Did = ''did:plc:carol'', u_PDS = 1\<rparr>"
  have c: "db_Create_User sample_env ?s'
             \<lparr>u_ID = 0, u_Handle = ''carol.example'', u_Did = ''did:plc:carol'', u_PDS = p_ID ?peering\<rparr>
           = Inr (?s'\<lparr>users := [?u]\<rparr>, ?u)"
    by (simp add: db_Create_User_def sample_env_def empty_state_def next_id_def Let_def)
  have n: "pr_DisplayName \<lparr>pr_Handle = ''carol.example'', pr_DisplayName = None,
             pr_Declaration = Some \<lparr>Cid = ''cid-c''\<rparr>\<rparr> = None"
    by simp
  from createExternalUser_needs_display_name [OF sample_fetch_carol n] c
  have "createExternalUser sample_env empty_state ''did:plc:carol'' = (?s'\<lparr>users := [?u]\<rparr>, Panic)"
    by simp
  with n show ?thesis by simp
qed

subsection \<open>Events of an unknown repository\<close>

text \<open>
  Claim C8. For a repository-append event whose repository identifier has no user row
  (and a lookup that does not fail), \<^verbatim>\<open>handleFedEvent\<close> calls
  \<^verbatim>\<open>createExternalUser\<close>. When that fails, the handler returns its error, wrapped,
  and neither the merge engine nor the catch-up queue has been called. When it succeeds,
  the merge is called with the numeric id of the user row just created.
\<close>

theorem handleFedEvent_unknown_user:
  assumes "ev_RepoAppend evt = Some ra"
    and "db_fault e (FindUser (Repo evt)) s = None"
    and "\<forall>u \<in> set (users s). u_Did u \<noteq> Repo evt"
  shows "(\<forall>s' err. createExternalUser e s (Repo evt) = (s', Err err) \<longrightarrow>
            handleFedEvent e s host evt = (s', Err (ErrWrap ''fed event create external user'' err))
            \<and> catchup s' = catchup s \<and> merges s' = merges s)
       \<and> (\<forall>s' subj. createExternalUser e s (Repo evt) = (s', Ok subj) \<longrightarrow>
            handleFedEvent e s host evt = merge_event e s' host (a_Uid subj) evt ra
            \<and> merges (fst (handleFedEvent e s host evt)) = merges s @ [(p_ID host, a_Uid subj, ra)]
            \<and> (\<exists>u \<in> set (users s'). u_ID u = a_Uid subj \<and> u_Did u = Repo evt))"
proof (intro conjI allI impI)
  note nf = lookupUserByDid_absent [OF assms(2,3)]
  {
    fix s' err
    assume c: "createExternalUser e s (Repo evt) = (s', Err err)"
    from assms(1) nf c
    show "handleFedEvent e s host evt = (s', Err (ErrWrap ''fed event create external user'' err))"
      by (simp add: handleFedEvent_def)
    from createExternalUser_cases [OF c] show "catchup s' = catchup s" by simp
    from createExternalUser_cases [OF c] show "merges s' = merges s" by simp
  }
  {
    fix s' subj
    assume c: "createExternalUser e s (Repo evt) = (s', Ok subj)"
    from assms(1) nf c
    show h: "handleFedEvent e s host evt = merge_event e s' host (a_Uid subj) evt ra"
      by (simp add: handleFedEvent_def)
    obtain s'' r where m: "merge_event e s' host (a_Uid subj) evt ra = (s'', r)"
      by (cases "merge_event e s' host (a_Uid subj) evt ra")
    from merge_event_tables [OF m] createExternalUser_cases [OF c] h m
    show "merges (fst (handleFedEvent e s host evt)) = merges s @ [(p_ID host, a_Uid subj, ra)]"
      by simp
    from createExternalUser_cases [OF c]
    show "\<exists>u \<in> set (users s'). u_ID u = a_Uid subj \<and> u_Did u = Repo evt"
      by auto
  }
qed

theorem handleFedEvent_unknown_user_witness:
  "ev_RepoAppend (sample_event ''did:plc:alice'') = Some sample_append
   \<and> db_fault sample_env (FindUser ''did:plc:alice'') empty_state = None
   \<and> ''did:plc:alice'' \<notin> u_Did ` set (users empty_state)
   \<and> handleFedEvent sample_env empty_state sample_host (sample_event ''did:plc:nobody'')
       = (empty_state, Err (ErrWrap ''fed event create external user'' (ErrNoServices ''did:plc:nobody'')))
   \<and> merges (fst (handleFedEvent sample_env empty_state sample_host (sample_event ''did:plc:alice'')))
       = [(1, 1, sample_append)]"
proof -
  have a: "ev_RepoAppend (sample_event did) = Some sample_append" for did
    by (simp add: sample_event_def)
  have b: "db_fault sample_env (FindUser (Repo (sample_event did))) empty_state = None" for did
    by (simp add: sample_env_def)
  have c: "\<forall>u \<in> set (users empty_state). u_Did u \<noteq> Repo (sample_event did)" for did
    by (simp add: empty_state_def)
  have r: "Repo (sample_event did) = did" for did
    by (simp add: sample_event_def)
  from handleFedEvent_unknown_user [OF a b c, of "''did:plc:nobody''" sample_host] sample_create_nobody
  have n: "handleFedEvent sample_env empty_state sample_host (sample_event ''did:plc:nobody'')
       = (empty_state, Err (ErrWrap ''fed event create external user'' (ErrNoServices ''did:plc:nobody'')))"
    by (simp add: r)
  from handleFedEvent_unknown_user [OF a b c, of "''did:plc:alice''" sample_host] sample_create_alice
  have "merges (fst (handleFedEvent sample_env empty_state sample_host (sample_event ''did:plc:alice'')))
       = merges empty_state @ [(p_ID sample_host, a_Uid alice_info, sample_append)]"
    unfolding r by blast
  then have m: "merges (fst (handleFedEvent sample_env empty_state sample_host (sample_event ''did:plc:alice'')))
       = [(1, 1, sample_append)]"
    by (simp add: alice_info_def empty_state_def sample_host_def)
  from a b c n m show ?thesis by (simp add: sample_env_def empty_state_def)
qed

subsection \<open>Catch-up routing\<close>

text \<open>
  Claim C1, as stated, at the store that the resolution of \<open>did:plc:carol\<close> leaves
  (her user row, no directory record): the merge of her next event fails with the base
  mismatch, the lookup of the directory record fails, the handler returns that error and
  the catch-up queue is not called.
\<close>

theorem handleFedEvent_base_mismatch_counterexample:
  "fst (createExternalUser mismatch_env empty_state ''did:plc:carol'') = carol_row_only
   \<and> handleExternalUserEvent mismatch_env carol_row_only (p_ID sample_host) 1 sample_append
     = Some ErrRepoBaseMismatch
   \<and> snd (handleFedEvent mismatch_env carol_row_only sample_host (sample_event ''did:plc:carol''))
     = Err ErrRecordNotFound
   \<and> catchup (fst (handleFedEvent mismatch_env carol_row_only sample_host (sample_event ''did:plc:carol'')))
     = []"
proof -
  have "createExternalUser mismatch_env empty_state ''did:plc:carol'' = (carol_row_only, Panic)"
    by (simp add: createExternalUser_def fetch_identity_def persist_user_def mismatch_env_def
          sample_env_def sample_Document_def sample_Parse_def sample_Profile_def db_Find_PDS_def
          ensure_peering_def db_Create_PDS_def db_Create_User_def derive_handle_def
          carol_row_only_def empty_state_def zero_PDS_def next_id_def Let_def)
  moreover
  have "handleFedEvent mismatch_env carol_row_only sample_host (sample_event ''did:plc:carol'')
      = (carol_row_only\<lparr>merges := [(1, 1, sample_append)]\<rparr>, Err ErrRecordNotFound)"
    by (simp add: handleFedEvent_def lookupUserByDid_def db_Find_User_def merge_event_def
          mismatch_env_def sample_env_def carol_row_only_def empty_state_def sample_event_def
          sample_LookupUser_def sample_host_def Let_def)
  ultimately show ?thesis
    by (simp add: mismatch_env_def sample_env_def carol_row_only_def empty_state_def)
qed

text \<open>
  Claim C1, amended. Let the user of a repository-append event be resolved (found by
  \<^verbatim>\<open>lookupUserByDid\<close>, or created by \<^verbatim>\<open>createExternalUser\<close>), and let the merge fail
  with \<open>err\<close>; \<open>m\<close> is the state once the merge has been called. If \<open>err\<close> is the base
  mismatch and the lookup of the user's directory record succeeds, the catch-up queue is
  called exactly once, with the source host, that record and the event, and the handler
  returns what that call returns; if the lookup fails, the handler returns the lookup's
  error and the queue is not called. If \<open>err\<close> is not the base mismatch, the handler
  returns \<open>err\<close> and the queue is not called.
\<close>

theorem handleFedEvent_catchup_routing:
  assumes "ev_RepoAppend evt = Some ra"
    and "(lookupUserByDid e s (Repo evt) = Inr u \<and> s' = s \<and> uid = u_ID u)
       \<or> (db_fault e (FindUser (Repo evt)) s = None \<and> (\<forall>v \<in> set (users s). u_Did v \<noteq> Repo evt)
          \<and> createExternalUser e s (Repo evt) = (s', Ok subj) \<and> uid = a_Uid subj)"
    and "handleExternalUserEvent e s' (p_ID host) uid ra = Some err"
    and "m = s'\<lparr>merges := merges s' @ [(p_ID host, uid, ra)]\<rparr>"
  shows "(errors_Is err ErrRepoBaseMismatch \<longrightarrow>
            (\<forall>ai. lookupUser e m uid = Inr ai \<longrightarrow>
               handleFedEvent e s host evt =
                 (m\<lparr>catchup := catchup s' @ [(host, ai, evt)]\<rparr>,
                  case addToCatchupQueue e m host ai evt of None \<Rightarrow> Ok () | Some err' \<Rightarrow> Err err'))
          \<and> (\<forall>err'. lookupUser e m uid = Inl err' \<longrightarrow>
               handleFedEvent e s host evt = (m, Err err')))
       \<and> (\<not> errors_Is err ErrRepoBaseMismatch \<longrightarrow> handleFedEvent e s host evt = (m, Err err))
       \<and> catchup m = catchup s"
proof -
  have h: "handleFedEvent e s host evt = merge_event e s' host uid evt ra"
    using assms(2)
  proof
    assume "lookupUserByDid e s (Repo evt) = Inr u \<and> s' = s \<and> uid = u_ID u"
    with assms(1) show ?thesis by (simp add: handleFedEvent_def)
  next
    assume a: "db_fault e (FindUser (Repo evt)) s = None \<and> (\<forall>v \<in> set (users s). u_Did v \<noteq> Repo evt)
          \<and> createExternalUser e s (Repo evt) = (s', Ok subj) \<and> uid = a_Uid subj"
    then have "lookupUserByDid e s (Repo evt) = Inl ErrRecordNotFound"
      by (simp add: lookupUserByDid_absent)
    with a assms(1) show ?thesis by (simp add: handleFedEvent_def)
  qed
  have c: "catchup s' = catchup s"
    using assms(2) createExternalUser_cases [of e s "Repo evt" s' "Ok subj"] by auto
  show ?thesis
    using assms(3,4) c
    by (auto simp: h merge_event_def Let_def split: option.splits)
qed

theorem handleFedEvent_catchup_routing_witness:
  "ev_RepoAppend (sample_event ''did:plc:alice'') = Some sample_append
   \<and> lookupUserByDid mismatch_env alice_resolved ''did:plc:alice''
       = Inr \<lparr>u_ID = 1, u_Handle = ''alice.example'', u_Did = ''did:plc:alice'', u_PDS = 1\<rparr>
   \<and> handleExternalUserEvent mismatch_env alice_resolved (p_ID sample_host) 1 sample_append
       = Some ErrRepoBaseMismatch
   \<and> errors_Is ErrRepoBaseMismatch ErrRepoBaseMismatch
   \<and> handleFedEvent mismatch_env alice_resolved sample_host (sample_event ''did:plc:alice'')
       = (alice_resolved\<lparr>merges := [(1, 1, sample_append)],
                         catchup := [(sample_host, alice_info, sample_event ''did:plc:alice'')]\<rparr>,
          Ok ())
   \<and> \<not> errors_Is (ErrExternal ''disk'') ErrRepoBaseMismatch
   \<and> handleFedEvent (sample_env\<lparr>handleExternalUserEvent := (\<lambda>s hid uid ra. Some (ErrExternal ''disk''))\<rparr>)
         alice_resolved sample_host (sample_event ''did:plc:alice'')
       = (alice_resolved\<lparr>merges := [(1, 1, sample_append)]\<rparr>, Err (ErrExternal ''disk''))"
proof -
  let ?u = "\<lparr>u_ID = 1, u_Handle = ''alice.example'', u_Did = ''did:plc:alice'', u_PDS = 1\<rparr>"
  let ?evt = "sample_event ''did:plc:alice''"
  let ?m = "alice_resolved\<lparr>merges := merges alice_resolved @ [(p_ID sample_host, u_ID ?u, sample_append)]\<rparr>"
  let ?disk = "sample_env\<lparr>handleExternalUserEvent := (\<lambda>s hid uid ra. Some (ErrExternal ''disk''))\<rparr>"
  have a: "ev_RepoAppend ?evt = Some sample_append"
    by (simp add: sample_event_def)
  have l: "lookupUserByDid e alice_resolved (Repo ?evt) = Inr ?u" if "db_fault e = (\<lambda>op s. None)" for e
    using that
    by (simp add: lookupUserByDid_def db_Find_User_def alice_resolved_def empty_state_def sample_event_def)
  have l1: "lookupUserByDid mismatch_env alice_resolved (Repo ?evt) = Inr ?u"
    by (rule l) (simp add: mismatch_env_def sample_env_def)
  have l2: "lookupUserByDid ?disk alice_resolved (Repo ?evt) = Inr ?u"
    by (rule l) (simp add: sample_env_def)
  have b1: "handleExternalUserEvent mismatch_env alice_resolved (p_ID sample_host) (u_ID ?u) sample_append
       = Some ErrRepoBaseMismatch"
    by (simp add: mismatch_env_def sample_env_def)
  have b2: "handleExternalUserEvent ?disk alice_resolved (p_ID sample_host) (u_ID ?u) sample_append
       = Some (ErrExternal ''disk'')"
    by (simp add: sample_env_def)
  have k: "lookupUser mismatch_env ?m (u_ID ?u) = Inr alice_info"
    by (simp add: mismatch_env_def sample_env_def sample_LookupUser_def alice_resolved_def
          empty_state_def alice_info_def)
  have q: "addToCatchupQueue mismatch_env ?m sample_host alice_info ?evt = None"
    by (simp add: mismatch_env_def sample_env_def)
  from handleFedEvent_catchup_routing [where e = mismatch_env and s = alice_resolved
      and s' = alice_resolved and u = ?u and uid = "u_ID ?u" and host = sample_host and m = ?m
      and evt = ?evt and ra = sample_append and err = ErrRepoBaseMismatch, OF a _ b1 refl] l1 k q
  have r1: "handleFedEvent mismatch_env alice_resolved sample_host ?evt
       = (?m\<lparr>catchup := catchup alice_resolved @ [(sample_host, alice_info, ?evt)]\<rparr>, Ok ())"
    by simp
  from handleFedEvent_catchup_routing [where e = ?disk and s = alice_resolved
      and s' = alice_resolved and u = ?u and uid = "u_ID ?u" and host = sample_host and m = ?m
      and evt = ?evt and ra = sample_append and err = "ErrExternal ''disk''", OF a _ b2 refl] l2
  have r2: "handleFedEvent ?disk alice_resolved sample_host ?evt = (?m, Err (ErrExternal ''disk''))"
    by simp
  have e1: "Repo ?evt = ''did:plc:alice''" by (simp add: sample_event_def)
  from a l1 b1 r1 r2 show ?thesis
    by (simp add: e1 alice_resolved_def empty_state_def sample_host_def)
qed

subsection \<open>One user row for an identifier\<close>

lemma createExternalUser_users:
  "users (fst (createExternalUser e s did)) = users s \<or>
   (\<exists>u. users (fst (createExternalUser e s did)) = users s @ [u] \<and> u_Did u = did
        \<and> (\<forall>v \<in> set (users s). u_Did v \<noteq> did))"
proof (cases "createExternalUser e s did")
  case (Pair s' r)
  from createExternalUser_cases [OF Pair] Pair show ?thesis by auto
qed

lemma handleFedEvent_users:
  "users (fst (handleFedEvent e s host evt)) = users s \<or>
   (\<exists>u. users (fst (handleFedEvent e s host evt)) = users s @ [u] \<and> u_Did u = Repo evt
        \<and> (\<forall>v \<in> set (users s). u_Did v \<noteq> Repo evt))"
proof (cases "ev_RepoAppend evt")
  case None
  then show ?thesis by (simp add: handleFedEvent_def)
next
  case (Some ra)
  have m: "users (fst (merge_event e t host uid evt ra)) = users t" for t uid
    using merge_event_tables [of e t host uid evt ra] by (cases "merge_event e t host uid evt ra") auto
  show ?thesis
  proof (cases "lookupUserByDid e s (Repo evt)")
    case (Inr u)
    with Some m show ?thesis by (simp add: handleFedEvent_def)
  next
    case (Inl err)
    show ?thesis
    proof (cases "errors_Is err ErrRecordNotFound")
      case False
      with Some Inl show ?thesis by (simp add: handleFedEvent_def)
    next
      case True
      obtain s' r where c: "createExternalUser e s (Repo evt) = (s', r)"
        by (cases "createExternalUser e s (Repo evt)")
      have "users (fst (handleFedEvent e s host evt)) = users s'"
        using Some Inl True c m by (cases r) (simp_all add: handleFedEvent_def)
      with createExternalUser_users [of e s "Repo evt"] c show ?thesis by simp
    qed
  qed
qed

text \<open>
  Claim C4. Both \<^verbatim>\<open>handleFedEvent\<close> and \<^verbatim>\<open>createExternalUser\<close> keep the identifiers
  of the user rows distinct, and leave the user rows as they are when a row of the
  identifier exists. Two events of one repository, handled one after the other from a
  store with no row of its identifier, leave at most one row of it.
\<close>

theorem one_user_per_identifier:
  "(distinct (map u_Did (users s)) \<longrightarrow>
      distinct (map u_Did (users (fst (handleFedEvent e s host evt))))
      \<and> distinct (map u_Did (users (fst (createExternalUser e s did)))))
   \<and> ((\<exists>u \<in> set (users s). u_Did u = Repo evt) \<longrightarrow>
        users (fst (handleFedEvent e s host evt)) = users s)
   \<and> ((\<exists>u \<in> set (users s). u_Did u = did) \<longrightarrow>
        users (fst (createExternalUser e s did)) = users s)
   \<and> ((\<forall>u \<in> set (users s). u_Did u \<noteq> Repo evt) \<longrightarrow> Repo evt' = Repo evt \<longrightarrow>
        length (filter (\<lambda>u. u_Did u = Repo evt)
                 (users (fst (handleFedEvent e' (fst (handleFedEvent e s host evt)) host' evt')))) \<le> 1)"
proof (intro conjI impI)
  assume d: "distinct (map u_Did (users s))"
  have step: "distinct (map u_Did us')"
    if "us' = users s \<or> (\<exists>u. us' = users s @ [u] \<and> u_Did u = x \<and> (\<forall>v \<in> set (users s). u_Did v \<noteq> x))"
    for us' x
    using that d by (elim disjE exE conjE) (simp, force)
  from handleFedEvent_users [of e s host evt]
  show "distinct (map u_Did (users (fst (handleFedEvent e s host evt))))" by (rule step)
  from createExternalUser_users [of e s did]
  show "distinct (map u_Did (users (fst (createExternalUser e s did))))" by (rule step)
next
  assume "\<exists>u \<in> set (users s). u_Did u = Repo evt"
  with handleFedEvent_users [of e s host evt]
  show "users (fst (handleFedEvent e s host evt)) = users s" by auto
next
  assume "\<exists>u \<in> set (users s). u_Did u = did"
  with createExternalUser_users [of e s did]
  show "users (fst (createExternalUser e s did)) = users s" by auto
next
  assume n: "\<forall>u \<in> set (users s). u_Did u \<noteq> Repo evt" and r: "Repo evt' = Repo evt"
  let ?s1 = "fst (handleFedEvent e s host evt)"
  from n have z: "filter (\<lambda>u. u_Did u = Repo evt) (users s) = []"
    by (simp add: filter_empty_conv)
  from handleFedEvent_users [of e s host evt] z
  have one: "length (filter (\<lambda>u. u_Did u = Repo evt) (users ?s1)) \<le> 1" by auto
  from handleFedEvent_users [of e' ?s1 host' evt'] r
  have "users (fst (handleFedEvent e' ?s1 host' evt')) = users ?s1 \<or>
        (\<exists>u. users (fst (handleFedEvent e' ?s1 host' evt')) = users ?s1 @ [u]
             \<and> filter (\<lambda>u. u_Did u = Repo evt) (users ?s1) = [])"
    by (auto simp: filter_empty_conv)
  with one
  show "length (filter (\<lambda>u. u_Did u = Repo evt)
                 (users (fst (handleFedEvent e' ?s1 host' evt')))) \<le> 1"
    by auto
qed

theorem one_user_per_identifier_witness:
  "distinct (map u_Did (users alice_resolved))
   \<and> (\<exists>u \<in> set (users alice_resolved). u_Did u = ''did:plc:alice'')
   \<and> ''did:plc:alice'' \<notin> u_Did ` set (users empty_state)
   \<and> users (fst (handleFedEvent sample_env alice_resolved sample_host (sample_event ''did:plc:alice'')))
       = users alice_resolved
   \<and> users (fst (createExternalUser sample_env alice_resolved ''did:plc:alice'')) = users alice_resolved
   \<and> distinct (map u_Did (users (fst (createExternalUser sample_env alice_resolved ''did:plc:bob''))))
   \<and> length (filter (\<lambda>u. u_Did u = ''did:plc:alice'')
         (users (fst (handleFedEvent sample_env
                       (fst (handleFedEvent sample_env empty_state sample_host
                              (sample_event ''did:plc:alice'')))
                       sample_host (sample_event ''did:plc:alice''))))) \<le> 1"
proof -
  let ?evt = "sample_event ''did:plc:alice''"
  have r: "Repo ?evt = ''did:plc:alice''" by (simp add: sample_event_def)
  have d: "distinct (map u_Did (users alice_resolved))"
    by (simp add: alice_resolved_def empty_state_def)
  have x: "\<exists>u \<in> set (users alice_resolved). u_Did u = ''did:plc:alice''"
    by (simp add: alice_resolved_def empty_state_def)
  have n: "\<forall>u \<in> set (users empty_state). u_Did u \<noteq> ''did:plc:alice''"
    by (simp add: empty_state_def)
  note t1 = one_user_per_identifier [where s = alice_resolved and e = sample_env
      and host = sample_host and evt = ?evt and did = "''did:plc:alice''"]
  note t2 = one_user_per_identifier [where s = alice_resolved and e = sample_env
      and did = "''did:plc:bob''"]
  note t3 = one_user_per_identifier [where s = empty_state and e = sample_env and e' = sample_env
      and host = sample_host and host' = sample_host and evt = ?evt and evt' = ?evt]
  from t1 x have a: "users (fst (handleFedEvent sample_env alice_resolved sample_host ?evt))
       = users alice_resolved"
    unfolding r by blast
  from t1 x have b: "users (fst (createExternalUser sample_env alice_resolved ''did:plc:alice''))
       = users alice_resolved"
    by blast
  from t2 d have c: "distinct (map u_Did (users (fst (createExternalUser sample_env alice_resolved ''did:plc:bob''))))"
    by blast
  from t3 n have e: "length (filter (\<lambda>u. u_Did u = ''did:plc:alice'')
         (users (fst (handleFedEvent sample_env
                       (fst (handleFedEvent sample_env empty_state sample_host ?evt))
                       sample_host ?evt)))) \<le> 1"
    unfolding r by blast
  have n': "''did:plc:alice'' \<notin> u_Did ` set (users empty_state)"
    by (simp add: empty_state_def)
  from d x n' a b c e show ?thesis by blast
qed

subsection \<open>The key of the peering row\<close>

lemma sample_fetch_bob_second:
  "fetch_identity sample_env alice_resolved ''did:plc:bob'' =
     (alice_resolved\<lparr>pds := pds alice_resolved @
                      [\<lparr>p_ID = 2, p_Host = ''https://pds.example'', p_Did = ''did:web:pds.example''\<rparr>],
                  probes := [''https://pds.example'', ''https://pds.example'']\<rparr>,
      Inr (''bob.example'',
           \<lparr>p_ID = 2, p_Host = ''https://pds.example'', p_Did = ''did:web:pds.example''\<rparr>,
           \<lparr>pr_Handle = ''bob.example'', pr_DisplayName = Some ''Bob'',
             pr_Declaration = Some \<lparr>Cid = ''cid-b''\<rparr>\<rparr>))"
  by (simp add: fetch_identity_def sample_env_def sample_Document_def sample_Parse_def
        db_Find_PDS_def ensure_peering_def db_Create_PDS_def derive_handle_def sample_Profile_def
        alice_resolved_def empty_state_def zero_PDS_def next_id_def Let_def)

text \<open>
  Claim C3, evaluated. The endpoint \<open>https://pds.example\<close> parses to the host
  \<open>pds.example\<close>. The first resolution stores a peering row whose host is the endpoint
  itself; the lookup of the second resolution, by the parsed host, finds no row, so the
  host is probed a second time and a second peering row of the same host is created.
\<close>

theorem createExternalUser_second_contact_probes_again:
  "url_Parse sample_env ''https://pds.example''
     = Inr \<lparr>Scheme = ''https'', Host = ''pds.example'', Rest = []\<rparr>
   \<and> fst (createExternalUser sample_env empty_state ''did:plc:alice'') = alice_resolved
   \<and> map p_Host (pds alice_resolved) = [''https://pds.example'']
   \<and> db_Find_PDS sample_env alice_resolved ''pds.example'' = Inr zero_PDS
   \<and> probes (fst (createExternalUser sample_env alice_resolved ''did:plc:bob''))
       = [''https://pds.example'', ''https://pds.example'']
   \<and> map p_Host (pds (fst (createExternalUser sample_env alice_resolved ''did:plc:bob'')))
       = [''https://pds.example'', ''https://pds.example'']"
proof -
  have a: "url_Parse sample_env ''https://pds.example''
     = Inr \<lparr>Scheme = ''https'', Host = ''pds.example'', Rest = []\<rparr>"
    by (simp add: sample_env_def sample_Parse_def)
  have b: "map p_Host (pds alice_resolved) = [''https://pds.example'']"
    by (simp add: alice_resolved_def empty_state_def)
  have c: "db_Find_PDS sample_env alice_resolved ''pds.example'' = Inr zero_PDS"
    by (simp add: db_Find_PDS_def sample_env_def alice_resolved_def empty_state_def)
  obtain s' r where p: "createExternalUser sample_env alice_resolved ''did:plc:bob'' = (s', r)"
    by (cases "createExternalUser sample_env alice_resolved ''did:plc:bob''")
  then have q: "persist_user sample_env
        (alice_resolved\<lparr>pds := pds alice_resolved @
                      [\<lparr>p_ID = 2, p_Host = ''https://pds.example'', p_Did = ''did:web:pds.example''\<rparr>],
                  probes := [''https://pds.example'', ''https://pds.example'']\<rparr>)
        ''did:plc:bob'' ''bob.example''
        \<lparr>p_ID = 2, p_Host = ''https://pds.example'', p_Did = ''did:web:pds.example''\<rparr>
        \<lparr>pr_Handle = ''bob.example'', pr_DisplayName = Some ''Bob'',
             pr_Declaration = Some \<lparr>Cid = ''cid-b''\<rparr>\<rparr> = (s', r)"
    by (simp add: createExternalUser_def sample_fetch_bob_second)
  from persist_user_cases [OF q] p b
  have d: "probes (fst (createExternalUser sample_env alice_resolved ''did:plc:bob''))
       = [''https://pds.example'', ''https://pds.example'']"
    and e: "map p_Host (pds (fst (createExternalUser sample_env alice_resolved ''did:plc:bob'')))
       = [''https://pds.example'', ''https://pds.example'']"
    by simp_all
  from a b c d e sample_create_alice show ?thesis by simp
qed

subsection \<open>POST /add-target\<close>

text \<open>
  Claim C7, as stated: the request with an empty host is answered with status 500, which
  is not a client error, and so is the request that the subscription manager fails.
\<close>

theorem handleAddTarget_empty_host_counterexample:
  "serve (snd (handleAddTarget sample_env empty_state (Inr \<lparr>body_Host = []\<rparr>))) = Some 500
   \<and> \<not> client_error_status 500
   \<and> serve (snd (handleAddTarget (sample_env\<lparr>subscribeToPds := (\<lambda>s host. Some (ErrExternal ''dial''))\<rparr>)
                    empty_state (Inr \<lparr>body_Host = ''pds.example''\<rparr>))) = Some 500"
  by (simp add: handleAddTarget_def serve_def HTTPErrorHandler_def client_error_status_def sample_env_def)

text \<open>
  Claim C7, amended. A request whose body has an empty host is rejected with the error
  "no host specified" before any state changes, so before any call to the subscription
  manager; for a non-empty host the subscription manager is called once with that host
  and the handler returns what it returns. Both errors are answered with status 500, a
  server error.
\<close>

theorem handleAddTarget_result:
  "(host = [] \<longrightarrow>
      handleAddTarget e s (Inr \<lparr>body_Host = host\<rparr>) = (s, Some ErrNoHost)
      \<and> serve (snd (handleAddTarget e s (Inr \<lparr>body_Host = host\<rparr>))) = Some 500)
   \<and> (host \<noteq> [] \<longrightarrow>
        handleAddTarget e s (Inr \<lparr>body_Host = host\<rparr>)
          = (s\<lparr>slurped := slurped s @ [host]\<rparr>, subscribeToPds e s host)
        \<and> (\<forall>err. subscribeToPds e s host = Some err \<longrightarrow>
              serve (snd (handleAddTarget e s (Inr \<lparr>body_Host = host\<rparr>))) = Some 500
              \<and> server_error_status 500))"
  by (simp add: handleAddTarget_def serve_def HTTPErrorHandler_def server_error_status_def)

theorem handleAddTarget_result_witness:
  "handleAddTarget sample_env empty_state (Inr \<lparr>body_Host = []\<rparr>) = (empty_state, Some ErrNoHost)
   \<and> ''pds.example'' \<noteq> []
   \<and> handleAddTarget sample_env empty_state (Inr \<lparr>body_Host = ''pds.example''\<rparr>)
       = (empty_state\<lparr>slurped := [''pds.example'']\<rparr>, None)
   \<and> subscribeToPds (sample_env\<lparr>subscribeToPds := (\<lambda>s host. Some (ErrExternal ''dial''))\<rparr>)
         empty_state ''pds.example'' = Some (ErrExternal ''dial'')
   \<and> serve (snd (handleAddTarget (sample_env\<lparr>subscribeToPds := (\<lambda>s host. Some (ErrExternal ''dial''))\<rparr>)
                    empty_state (Inr \<lparr>body_Host = ''pds.example''\<rparr>))) = Some 500"
proof -
  let ?dial = "sample_env\<lparr>subscribeToPds := (\<lambda>s host. Some (ErrExternal ''dial''))\<rparr>"
  have n: "subscribeToPds sample_env empty_state ''pds.example'' = None"
    by (simp add: sample_env_def)
  have d: "subscribeToPds ?dial empty_state ''pds.example'' = Some (ErrExternal ''dial'')"
    by simp
  have h: "''pds.example'' \<noteq> []"
    by simp
  from handleAddTarget_result [of "[]" sample_env empty_state]
  have a: "handleAddTarget sample_env empty_state (Inr \<lparr>body_Host = []\<rparr>) = (empty_state, Some ErrNoHost)"
    by blast
  from handleAddTarget_result [of "''pds.example''" sample_env empty_state] h
  have "handleAddTarget sample_env empty_state (Inr \<lparr>body_Host = ''pds.example''\<rparr>)
       = (empty_state\<lparr>slurped := slurped empty_state @ [''pds.example'']\<rparr>,
          subscribeToPds sample_env empty_state ''pds.example'')"
    by blast
  with n have b: "handleAddTarget sample_env empty_state (Inr \<lparr>body_Host = ''pds.example''\<rparr>)
       = (empty_state\<lparr>slurped := [''pds.example'']\<rparr>, None)"
    by (simp add: empty_state_def)
  from handleAddTarget_result [of "''pds.example''" ?dial empty_state] h d
  have c: "serve (snd (handleAddTarget ?dial empty_state (Inr \<lparr>body_Host = ''pds.example''\<rparr>))) = Some 500"
    by blast
  from a b c d h show ?thesis by blast
qed

subsection \<open>GET /events: the cursor\<close>

lemma sample_no_since: "parse_since \<lparr>Header = []\<rparr> = Inr None"
  by (simp add: parse_since_def Header_Get_def)

text \<open>
  Claim C5, as stated: a \<open>since\<close> header that is present with an empty value does not
  parse as an integer, and yet the request does not fail: the handler subscribes, with no
  cursor.
\<close>

theorem EventsHandler_since_counterexample:
  "map_of (Header \<lparr>Header = [(''since'', [[]])]\<rparr>) ''since'' = Some [[]]
   \<and> ParseInt [] = Inl ErrNumSyntax
   \<and> EventsHandler sample_env empty_state \<lparr>Header = [(''since'', [[]])]\<rparr>
       = (empty_state\<lparr>subs := [(events_filter, None)], cancels := 1\<rparr>, [], None)"
  by (simp add: EventsHandler_def parse_since_def Header_Get_def ParseInt_def
        sample_env_def empty_state_def Let_def)

text \<open>
  Claim C5, amended. Once the connection is upgraded: when \<^verbatim>\<open>Header.Get("since")\<close> is
  empty (no header, or an empty value), the handler subscribes with no cursor; when it is
  not empty and parses as a base-10 integer of 64 bits, that value is the cursor given to
  \<^verbatim>\<open>Subscribe\<close>; when it is not empty and does not parse, the handler returns the
  parse error with the state as it was, so before \<^verbatim>\<open>Subscribe\<close> is called.
\<close>

theorem EventsHandler_since:
  assumes "websocket_Upgrade e = None"
    and "Header_Get (Header req) ''since'' = h"
  shows "(h = [] \<longrightarrow> subs (fst (EventsHandler e s req)) = subs s @ [(events_filter, None)])
     \<and> (\<forall>v. h \<noteq> [] \<longrightarrow> ParseInt h = Inr v \<longrightarrow>
           subs (fst (EventsHandler e s req)) = subs s @ [(events_filter, Some v)])
     \<and> (\<forall>err. h \<noteq> [] \<longrightarrow> ParseInt h = Inl err \<longrightarrow>
           EventsHandler e s req = (s, [], Some err))"
  using assms
  by (auto simp: EventsHandler_def parse_since_def Let_def split: sum.splits prod.splits)

theorem EventsHandler_since_witness:
  "websocket_Upgrade sample_env = None
   \<and> Header_Get (Header \<lparr>Header = []\<rparr>) ''since'' = []
   \<and> subs (fst (EventsHandler sample_env empty_state \<lparr>Header = []\<rparr>)) = [(events_filter, None)]
   \<and> Header_Get (Header \<lparr>Header = [(''since'', [''42''])]\<rparr>) ''since'' = ''42''
   \<and> ParseInt ''42'' = Inr 42
   \<and> subs (fst (EventsHandler sample_env empty_state \<lparr>Header = [(''since'', [''42''])]\<rparr>))
       = [(events_filter, Some 42)]
   \<and> Header_Get (Header \<lparr>Header = [(''since'', [''soon''])]\<rparr>) ''since'' = ''soon''
   \<and> ParseInt ''soon'' = Inl ErrNumSyntax
   \<and> EventsHandler sample_env empty_state \<lparr>Header = [(''since'', [''soon''])]\<rparr>
       = (empty_state, [], Some ErrNumSyntax)"
proof -
  have u: "websocket_Upgrade sample_env = None"
    by (simp add: sample_env_def)
  have g0: "Header_Get (Header \<lparr>Header = []\<rparr>) ''since'' = []"
    by (simp add: Header_Get_def)
  have g1: "Header_Get (Header \<lparr>Header = [(''since'', [''42''])]\<rparr>) ''since'' = ''42''"
    by (simp add: Header_Get_def)
  have g2: "Header_Get (Header \<lparr>Header = [(''since'', [''soon''])]\<rparr>) ''since'' = ''soon''"
    by (simp add: Header_Get_def)
  have p1: "ParseInt ''42'' = Inr 42"
    by (simp add: ParseInt_def digit_val_def)
  have p2: "ParseInt ''soon'' = Inl ErrNumSyntax"
    by (simp add: ParseInt_def digit_val_def)
  have ne1: "''42'' \<noteq> []" and ne2: "''soon'' \<noteq> []"
    by simp_all
  from EventsHandler_since [OF u g0, of empty_state]
  have a: "subs (fst (EventsHandler sample_env empty_state \<lparr>Header = []\<rparr>))
       = subs empty_state @ [(events_filter, None)]"
    by blast
  from EventsHandler_since [OF u g1, of empty_state] ne1 p1
  have b: "subs (fst (EventsHandler sample_env empty_state \<lparr>Header = [(''since'', [''42''])]\<rparr>))
       = subs empty_state @ [(events_filter, Some 42)]"
    by blast
  from EventsHandler_since [OF u g2, of empty_state] ne2 p2
  have c: "EventsHandler sample_env empty_state \<lparr>Header = [(''since'', [''soon''])]\<rparr>
       = (empty_state, [], Some ErrNumSyntax)"
    by blast
  have e: "subs empty_state = []"
    by (simp add: empty_state_def)
  from u g0 g1 g2 p1 p2 a b c show ?thesis
    unfolding e by simp
qed

subsection \<open>GET /events: the loop over the channel\<close>

lemma write_events_run:
  "write_events e tr0 evts = (tr, r) \<Longrightarrow>
     \<exists>done. tr = tr0 @ done \<and> all_ok e tr0 done \<and>
       (case r of
          None \<Rightarrow> done = concat (map frame_ops evts)
        | Some err \<Rightarrow>
            \<exists>k pre op rest err0. k < length evts
              \<and> done = concat (map frame_ops (take k evts)) @ pre
              \<and> frame_ops (evts ! k) = pre @ op # rest
              \<and> ws_fault e tr op = Some err0 \<and> err = op_error op err0)"
proof (induction evts arbitrary: tr0)
  case Nil
  then show ?case by auto
next
  case (Cons evt evts)
  have fo: "frame_ops evt = [NextWriter_Binary, Marshal_Header ''data'', Marshal_Event evt, Close_Writer]"
    by (simp add: frame_ops_def)
  show ?case
  proof (cases "ws_fault e tr0 NextWriter_Binary")
    case (Some err0)
    with Cons.prems have "tr = tr0" "r = Some err0" by auto
    with Some show ?thesis
      by (intro exI [of _ "[]"])
         (auto simp: fo op_error_def intro!: exI [of _ 0] exI [of _ "[]"])
  next
    case n1: None
    let ?tr1 = "tr0 @ [NextWriter_Binary]"
    show ?thesis
    proof (cases "ws_fault e ?tr1 (Marshal_Header ''data'')")
      case (Some err0)
      with n1 Cons.prems have "tr = ?tr1" "r = Some (ErrWrap ''failed to write header'' err0)"
        by (auto simp: Let_def)
      with n1 Some show ?thesis
        by (intro exI [of _ "[NextWriter_Binary]"])
           (auto simp: fo op_error_def intro!: exI [of _ 0] exI [of _ "[NextWriter_Binary]"])
    next
      case n2: None
      let ?tr2 = "?tr1 @ [Marshal_Header ''data'']"
      show ?thesis
      proof (cases "ws_fault e ?tr2 (Marshal_Event evt)")
        case (Some err0)
        with n1 n2 Cons.prems have "tr = ?tr2" "r = Some (ErrWrap ''failed to write event'' err0)"
          by (auto simp: Let_def)
        with n1 n2 Some show ?thesis
          by (intro exI [of _ "[NextWriter_Binary, Marshal_Header ''data'']"])
             (auto simp: fo op_error_def
                   intro!: exI [of _ 0] exI [of _ "[NextWriter_Binary, Marshal_Header ''data'']"])
      next
        case n3: None
        let ?tr3 = "?tr2 @ [Marshal_Event evt]"
        show ?thesis
        proof (cases "ws_fault e ?tr3 Close_Writer")
          case (Some err0)
          with n1 n2 n3 Cons.prems
          have "tr = ?tr3" "r = Some (ErrWrap ''failed to flush-close our event write'' err0)"
            by (auto simp: Let_def)
          with n1 n2 n3 Some show ?thesis
            by (intro exI [of _ "[NextWriter_Binary, Marshal_Header ''data'', Marshal_Event evt]"])
               (auto simp: fo op_error_def
                     intro!: exI [of _ 0]
                       exI [of _ "[NextWriter_Binary, Marshal_Header ''data'', Marshal_Event evt]"])
        next
          case n4: None
          with n1 n2 n3 Cons.prems
          have "write_events e (?tr3 @ [Close_Writer]) evts = (tr, r)"
            by (simp add: Let_def)
          from Cons.IH [OF this] obtain done' where
            t: "tr = (?tr3 @ [Close_Writer]) @ done'"
            and a: "all_ok e (?tr3 @ [Close_Writer]) done'"
            and c: "(case r of
                       None \<Rightarrow> done' = concat (map frame_ops evts)
                     | Some err \<Rightarrow>
                         \<exists>k pre op rest err0. k < length evts
                           \<and> done' = concat (map frame_ops (take k evts)) @ pre
                           \<and> frame_ops (evts ! k) = pre @ op # rest
                           \<and> ws_fault e tr op = Some err0 \<and> err = op_error op err0)"
            by blast
          show ?thesis
          proof (intro exI [of _ "frame_ops evt @ done'"] conjI)
            from t show "tr = tr0 @ frame_ops evt @ done'" by (simp add: fo)
            from n1 n2 n3 n4 a show "all_ok e tr0 (frame_ops evt @ done')" by (simp add: fo)
            show "case r of
                    None \<Rightarrow> frame_ops evt @ done' = concat (map frame_ops (evt # evts))
                  | Some err \<Rightarrow>
                      \<exists>k pre op rest err0. k < length (evt # evts)
                        \<and> frame_ops evt @ done' = concat (map frame_ops (take k (evt # evts))) @ pre
                        \<and> frame_ops ((evt # evts) ! k) = pre @ op # rest
                        \<and> ws_fault e tr op = Some err0 \<and> err = op_error op err0"
            proof (cases r)
              case None
              with c show ?thesis by simp
            next
              case (Some err)
              with c obtain k pre op rest err0 where
                "k < length evts" "done' = concat (map frame_ops (take k evts)) @ pre"
                "frame_ops (evts ! k) = pre @ op # rest"
                "ws_fault e tr op = Some err0" "err = op_error op err0"
                by auto
              then have "Suc k < length (evt # evts)
                  \<and> frame_ops evt @ done' = concat (map frame_ops (take (Suc k) (evt # evts))) @ pre
                  \<and> frame_ops ((evt # evts) ! Suc k) = pre @ op # rest
                  \<and> ws_fault e tr op = Some err0 \<and> err = op_error op err0"
                by simp
              then show ?thesis
                unfolding Some option.case by blast
            qed
          qed
        qed
      qed
    qed
  qed
qed

lemma all_ok_no_fault: "\<forall>tr0 op. ws_fault e tr0 op = None \<Longrightarrow> all_ok e tr ops"
  by (induction ops arbitrary: tr) simp_all

lemma all_ok_append: "all_ok e tr (xs @ ys) = (all_ok e tr xs \<and> all_ok e (tr @ xs) ys)"
  by (induction xs arbitrary: tr) auto

lemma EventsHandler_subscribed:
  assumes "websocket_Upgrade e = None"
    and "parse_since req = Inr since"
    and "events_Subscribe e s events_filter since = Inr evts"
    and "EventsHandler e s req = (s', tr, r)"
  shows "write_events e [] evts = (tr, r)"
    and "subs s' = subs s @ [(events_filter, since)]"
    and "cancels s' = Suc (cancels s)"
  using assms by (auto simp: EventsHandler_def Let_def split: prod.splits)

lemma write_events_complete:
  assumes "write_events e [] evts = (tr, r)"
  shows "(r = None) = all_ok e [] (concat (map frame_ops evts))"
proof (cases r)
  case None
  with write_events_run [OF assms] show ?thesis by auto
next
  case (Some err)
  with write_events_run [OF assms] obtain k pre op rest err0 where
    kl: "k < length evts" and t: "tr = concat (map frame_ops (take k evts)) @ pre"
    and f: "frame_ops (evts ! k) = pre @ op # rest" and z: "ws_fault e tr op = Some err0"
    by auto
  from kl have "evts = take k evts @ evts ! k # drop (Suc k) evts"
    by (simp add: id_take_nth_drop)
  then have "concat (map frame_ops evts)
      = concat (map frame_ops (take k evts)) @ frame_ops (evts ! k)
        @ concat (map frame_ops (drop (Suc k) evts))"
    by (metis concat.simps(2) concat_append list.simps(9) map_append)
  with t f have "concat (map frame_ops evts)
      = tr @ op # (rest @ concat (map frame_ops (drop (Suc k) evts)))"
    by simp
  then have "\<not> all_ok e [] (concat (map frame_ops evts))"
    using z by (simp add: all_ok_append)
  with Some show ?thesis by simp
qed

subsection \<open>GET /events: the frames\<close>

text \<open>
  Claim C6. Let the handler have subscribed, and let the channel deliver \<open>evts\<close>. Every
  operation the connection has completed succeeded, and the subscription is cancelled
  when the handler returns. When the handler returns no error, the connection has
  completed, for each delivered event in order, one binary frame that holds the header of
  type \<open>data\<close>, then the event, and is closed before the next frame is opened. When it
  returns an error, the frames of the first \<open>k\<close> events are complete, the next operation
  \<open>op\<close> of the frame of the event \<open>k\<close> has failed, the error returned is the error of that
  operation (wrapped as the source wraps it), and nothing is written after it. The
  handler returns no error exactly when none of these operations fails: a failure of
  \<^verbatim>\<open>NextWriter\<close>, of either encoding or of \<^verbatim>\<open>Close\<close>, for any event, ends the
  subscription.
\<close>

theorem EventsHandler_frames:
  assumes "websocket_Upgrade e = None"
    and "parse_since req = Inr since"
    and "events_Subscribe e s events_filter since = Inr evts"
    and "EventsHandler e s req = (s', tr, r)"
  shows "cancels s' = Suc (cancels s)
     \<and> all_ok e [] tr
     \<and> (case r of
          None \<Rightarrow> tr = concat (map frame_ops evts)
        | Some err \<Rightarrow>
            \<exists>k pre op rest err0. k < length evts
              \<and> tr = concat (map frame_ops (take k evts)) @ pre
              \<and> frame_ops (evts ! k) = pre @ op # rest
              \<and> ws_fault e tr op = Some err0 \<and> err = op_error op err0)
     \<and> (r = None) = all_ok e [] (concat (map frame_ops evts))"
proof -
  note w = EventsHandler_subscribed(1) [OF assms]
  from write_events_run [OF w]
  have "all_ok e [] tr"
    and "(case r of
          None \<Rightarrow> tr = concat (map frame_ops evts)
        | Some err \<Rightarrow>
            \<exists>k pre op rest err0. k < length evts
              \<and> tr = concat (map frame_ops (take k evts)) @ pre
              \<and> frame_ops (evts ! k) = pre @ op # rest
              \<and> ws_fault e tr op = Some err0 \<and> err = op_error op err0)"
    by auto
  with EventsHandler_subscribed(3) [OF assms] write_events_complete [OF w]
  show ?thesis by blast
qed

theorem EventsHandler_frames_witness:
  "websocket_Upgrade broken_pipe_env = None
   \<and> parse_since \<lparr>Header = []\<rparr> = Inr None
   \<and> events_Subscribe broken_pipe_env empty_state events_filter None = Inr two_events
   \<and> EventsHandler broken_pipe_env empty_state \<lparr>Header = []\<rparr>
       = (empty_state\<lparr>subs := [(events_filter, None)], cancels := 1\<rparr>,
          frame_ops (sample_event ''did:plc:alice'') @ [NextWriter_Binary, Marshal_Header ''data''],
          Some (ErrWrap ''failed to write event'' (ErrExternal ''broken pipe'')))
   \<and> \<not> all_ok broken_pipe_env [] (concat (map frame_ops two_events))
   \<and> all_ok broken_pipe_env []
        (frame_ops (sample_event ''did:plc:alice'') @ [NextWriter_Binary, Marshal_Header ''data''])
   \<and> snd (snd (EventsHandler streaming_env empty_state \<lparr>Header = []\<rparr>)) = None
   \<and> fst (snd (EventsHandler streaming_env empty_state \<lparr>Header = []\<rparr>))
       = frame_ops (sample_event ''did:plc:alice'') @ frame_ops (sample_event ''did:plc:bob'')"
proof -
  let ?req = "\<lparr>Header = []\<rparr>"
  let ?s' = "empty_state\<lparr>subs := [(events_filter, None)], cancels := 1\<rparr>"
  let ?tr = "frame_ops (sample_event ''did:plc:alice'') @ [NextWriter_Binary, Marshal_Header ''data'']"
  let ?r = "Some (ErrWrap ''failed to write event'' (ErrExternal ''broken pipe''))"
  have u: "websocket_Upgrade broken_pipe_env = None"
    by (simp add: broken_pipe_env_def streaming_env_def sample_env_def)
  have v: "events_Subscribe broken_pipe_env empty_state events_filter None = Inr two_events"
    by (simp add: broken_pipe_env_def streaming_env_def events_filter_def)
  have b: "EventsHandler broken_pipe_env empty_state ?req = (?s', ?tr, ?r)"
    by (simp add: EventsHandler_def sample_no_since broken_pipe_env_def streaming_env_def
          sample_env_def events_filter_def two_events_def frame_ops_def Let_def empty_state_def)
  from EventsHandler_frames [OF u sample_no_since v b]
  have x: "all_ok broken_pipe_env [] ?tr"
    and y: "\<not> all_ok broken_pipe_env [] (concat (map frame_ops two_events))"
    by simp_all
  have u2: "websocket_Upgrade streaming_env = None"
    by (simp add: streaming_env_def sample_env_def)
  have v2: "events_Subscribe streaming_env empty_state events_filter None = Inr two_events"
    by (simp add: streaming_env_def events_filter_def)
  have ok: "all_ok streaming_env [] (concat (map frame_ops two_events))"
    by (rule all_ok_no_fault) (simp add: streaming_env_def sample_env_def)
  obtain s2 tr2 r2 where h: "EventsHandler streaming_env empty_state ?req = (s2, tr2, r2)"
    by (cases "EventsHandler streaming_env empty_state ?req")
  from EventsHandler_frames [OF u2 sample_no_since v2 h] ok
  have r2: "r2 = None"
    by simp
  with EventsHandler_frames [OF u2 sample_no_since v2 h]
  have "tr2 = concat (map frame_ops two_events)"
    by simp
  with r2 h have c: "snd (snd (EventsHandler streaming_env empty_state ?req)) = None"
    and d: "fst (snd (EventsHandler streaming_env empty_state ?req))
       = frame_ops (sample_event ''did:plc:alice'') @ frame_ops (sample_event ''did:plc:bob'')"
    by (simp_all add: two_events_def)
  from u sample_no_since v b x y c d show ?thesis by blast
qed

subsection \<open>GET /events: the filter\<close>

text \<open>
  Claim C10, as stated, on an event manager that behaves as the spec describes: the
  events 1 and 2 are published before the subscriber connects, with no cursor; the
  subscription delivers the event 3 only, and the handler never writes the event 1.
\<close>

theorem EventsHandler_published_before_counterexample:
  "numbered_event 1 \<in> set [numbered_event 1, numbered_event 2]
   \<and> events_Subscribe replay_env empty_state events_filter None = Inr [numbered_event 3]
   \<and> EventsHandler replay_env empty_state \<lparr>Header = []\<rparr>
       = (empty_state\<lparr>subs := [(events_filter, None)], cancels := 1\<rparr>,
          frame_ops (numbered_event 3), None)
   \<and> Marshal_Event (numbered_event 1) \<notin> set (frame_ops (numbered_event 3))"
  by (simp add: EventsHandler_def sample_no_since replay_env_def sample_env_def spec_Subscribe_def
        subscription_window_def events_filter_def frame_ops_def numbered_event_def Let_def
        empty_state_def)

text \<open>
  Claim C10, amended. The filter that \<^verbatim>\<open>EventsHandler\<close> gives to \<^verbatim>\<open>Subscribe\<close> is true
  of every event, so the endpoint filters nothing: on an event manager that behaves as the
  spec describes, the subscription delivers every event of its window (the retained
  events after the cursor, then the events published after the registration; these only
  when no cursor is given), and the handler writes a frame for each of them, in order,
  exactly when no operation of the connection fails.
\<close>

theorem EventsHandler_delivers_window:
  assumes "websocket_Upgrade e = None"
    and "parse_since req = Inr since"
    and "\<forall>f. events_Subscribe e s f since = Inr (spec_Subscribe retained live f since)"
    and "EventsHandler e s req = (s', tr, r)"
  shows "subs s' = subs s @ [(events_filter, since)]
     \<and> (\<forall>evt. events_filter evt)
     \<and> events_Subscribe e s events_filter since = Inr (subscription_window retained live since)
     \<and> (r = None) = all_ok e [] (concat (map frame_ops (subscription_window retained live since)))
     \<and> (r = None \<longrightarrow> tr = concat (map frame_ops (subscription_window retained live since)))"
proof -
  have f: "\<forall>evt. events_filter evt"
    by (simp add: events_filter_def)
  then have "spec_Subscribe retained live events_filter since = subscription_window retained live since"
    by (simp add: spec_Subscribe_def)
  with assms(3) have v: "events_Subscribe e s events_filter since
      = Inr (subscription_window retained live since)"
    by simp
  note w = EventsHandler_subscribed(1) [OF assms(1,2) v assms(4)]
  from write_events_run [OF w]
  have "r = None \<longrightarrow> tr = concat (map frame_ops (subscription_window retained live since))"
    by auto
  with f v EventsHandler_subscribed(2) [OF assms(1,2) v assms(4)] write_events_complete [OF w]
  show ?thesis by blast
qed

theorem EventsHandler_delivers_window_witness:
  "websocket_Upgrade replay_env = None
   \<and> parse_since \<lparr>Header = [(''since'', [''1''])]\<rparr> = Inr (Some 1)
   \<and> events_Subscribe replay_env empty_state events_filter (Some 1)
       = Inr [numbered_event 2, numbered_event 3]
   \<and> subscription_window [numbered_event 1, numbered_event 2] [numbered_event 3] (Some 1)
       = [numbered_event 2, numbered_event 3]
   \<and> EventsHandler replay_env empty_state \<lparr>Header = [(''since'', [''1''])]\<rparr>
       = (empty_state\<lparr>subs := [(events_filter, Some 1)], cancels := 1\<rparr>,
          frame_ops (numbered_event 2) @ frame_ops (numbered_event 3), None)"
proof -
  let ?req = "\<lparr>Header = [(''since'', [''1''])]\<rparr>"
  let ?retained = "[numbered_event 1, numbered_event 2]"
  let ?live = "[numbered_event 3]"
  have u: "websocket_Upgrade replay_env = None"
    by (simp add: replay_env_def sample_env_def)
  have p: "parse_since ?req = Inr (Some 1)"
    by (simp add: parse_since_def Header_Get_def ParseInt_def digit_val_def)
  have a: "\<forall>f. events_Subscribe replay_env empty_state f (Some 1)
      = Inr (spec_Subscribe ?retained ?live f (Some 1))"
    by (simp add: replay_env_def)
  have win: "subscription_window ?retained ?live (Some 1) = [numbered_event 2, numbered_event 3]"
    by (simp add: subscription_window_def numbered_event_def)
  have ok: "all_ok replay_env [] ops" for ops
    by (rule all_ok_no_fault) (simp add: replay_env_def sample_env_def)
  obtain s' tr r where h: "EventsHandler replay_env empty_state ?req = (s', tr, r)"
    by (cases "EventsHandler replay_env empty_state ?req")
  from EventsHandler_delivers_window [OF u p a h] ok
  have sub: "subs s' = subs empty_state @ [(events_filter, Some 1)]"
    and ev: "events_Subscribe replay_env empty_state events_filter (Some 1)
       = Inr (subscription_window ?retained ?live (Some 1))"
    and r: "r = None"
    and tr: "tr = concat (map frame_ops (subscription_window ?retained ?live (Some 1)))"
    by blast+
  from EventsHandler_subscribed(3) [OF u p ev h] have c: "cancels s' = Suc (cancels empty_state)" .
  from h u p ev have "s' = empty_state\<lparr>subs := [(events_filter, Some 1)], cancels := 1\<rparr>"
    by (auto simp: EventsHandler_def Let_def empty_state_def split: prod.splits)
  with h r tr win ev u p show ?thesis by simp
qed

end
